theory Spec2Isabelle
  imports Complex_Main "HOL-Library.AList"
begin

section \<open>Conventions of the embedding\<close>

text \<open>
  The repository is a Node.js system: a service registry, a discovery client and a
  circuit breaker. Its functions are embedded as HOL functions under these conventions.

  \<^item> A JavaScript \<open>number\<close> that holds a timestamp, a port, a count or a number of
    seconds is an \<open>int\<close>; the one fractional factor of the source (\<open>0.5\<close>, the grace
    period) is computed over \<open>rat\<close>.
  \<^item> \<open>Date.now()\<close> is a parameter: \<open>currentTimestamp\<close> in the breaker, which reads the
    clock once per call, and \<open>now\<close> in the handlers of the registry. \<open>getServiceUrl\<close> reads
    the clock up to three times, once in \<open>_isCacheValid\<close> and twice in \<open>_updateCache\<close>; each
    of these reads is a parameter of its own.
  \<^item> \<open>Math.random()\<close> is the parameter \<open>rnd\<close>.
  \<^item> A function that may throw, or an \<open>async\<close> function whose promise may reject, returns
    \<open>error + 'r\<close>: \<open>Inl\<close> is the thrown value, \<open>Inr\<close> the returned value.
  \<^item> An object with mutable fields is a record, passed in and returned updated.
  \<^item> A JavaScript \<open>Map\<close> whose iteration order is observable is an association list;
    \<open>Map.set\<close> is \<open>AList.update\<close> (overwrite in place, else append), \<open>Map.get\<close> is
    \<open>map_of\<close>, \<open>Map.delete\<close> is \<open>AList.delete\<close>.
  \<^item> The answer of the remote side of an HTTP request is a parameter of the function that
    sends the request; the requests a function sends are returned as a list.
\<close>

text \<open>
  What a JavaScript function can throw, as far as the code tells the cases apart: an
  \<open>Error\<close> with its message, a \<open>TypeError\<close> raised by the runtime, \<open>undefined\<close>, \<open>null\<close>,
  or another value (a string, say), which has no \<open>message\<close>.
\<close>

datatype error =
    Error string
  | TypeError string
  | ThrownUndefined
  | ThrownNull
  | ThrownValue string

section \<open>Circuit breaker (packages/circuit-breaker/index.ts)\<close>

record CircuitBreakerConfig =
  maximumFailuresAllowed :: int
  timeWindowInMilliseconds :: int
  resetTimeoutInMilliseconds :: int

text \<open>
  \<open>class SingleMethodCircuitBreaker\<close>: the three constructor parameters and the three
  private fields. \<open>'a\<close> is the type of the argument list, \<open>'r\<close> of the result.
\<close>

record ('a, 'r) SingleMethodCircuitBreaker =
  methodName :: string
  configuration :: CircuitBreakerConfig
  fallbackMethodToCall :: "'a \<Rightarrow> error + 'r"
  isCircuitCurrentlyOpen :: bool
  failureTimestampsWithinWindow :: "int list"
  nextAllowedAttemptTime :: int

definition newSingleMethodCircuitBreaker ::
  "string \<Rightarrow> CircuitBreakerConfig \<Rightarrow> ('a \<Rightarrow> error + 'r) \<Rightarrow> ('a, 'r) SingleMethodCircuitBreaker" where
  "newSingleMethodCircuitBreaker methodName' configuration' fallbackMethodToCall' =
     \<lparr> methodName = methodName',
       configuration = configuration',
       fallbackMethodToCall = fallbackMethodToCall',
       isCircuitCurrentlyOpen = False,
       failureTimestampsWithinWindow = [],
       nextAllowedAttemptTime = 0 \<rparr>"

definition shouldOpenCircuit :: "('a, 'r) SingleMethodCircuitBreaker \<Rightarrow> bool" where
  "shouldOpenCircuit this =
     (\<not> isCircuitCurrentlyOpen this \<and>
      int (length (failureTimestampsWithinWindow this)) \<ge> maximumFailuresAllowed (configuration this))"

definition shouldAttemptRecovery :: "int \<Rightarrow> ('a, 'r) SingleMethodCircuitBreaker \<Rightarrow> bool" where
  "shouldAttemptRecovery currentTimestamp this =
     (isCircuitCurrentlyOpen this \<and> currentTimestamp \<ge> nextAllowedAttemptTime this)"

definition openCircuitAndSetResetTime ::
  "int \<Rightarrow> ('a, 'r) SingleMethodCircuitBreaker \<Rightarrow> ('a, 'r) SingleMethodCircuitBreaker" where
  "openCircuitAndSetResetTime currentTimestamp this =
     this\<lparr> isCircuitCurrentlyOpen := True,
           nextAllowedAttemptTime :=
             currentTimestamp + resetTimeoutInMilliseconds (configuration this) \<rparr>"

definition setCircuitToHalfOpen ::
  "('a, 'r) SingleMethodCircuitBreaker \<Rightarrow> ('a, 'r) SingleMethodCircuitBreaker" where
  "setCircuitToHalfOpen this = this\<lparr> isCircuitCurrentlyOpen := False \<rparr>"

definition closeCircuit ::
  "('a, 'r) SingleMethodCircuitBreaker \<Rightarrow> ('a, 'r) SingleMethodCircuitBreaker" where
  "closeCircuit this = this\<lparr> failureTimestampsWithinWindow := [] \<rparr>"

definition removeOldFailureRecords ::
  "int \<Rightarrow> ('a, 'r) SingleMethodCircuitBreaker \<Rightarrow> ('a, 'r) SingleMethodCircuitBreaker" where
  "removeOldFailureRecords currentTimestamp this =
     (let timeWindowCutoff = currentTimestamp - timeWindowInMilliseconds (configuration this)
      in this\<lparr> failureTimestampsWithinWindow :=
                 filter (\<lambda>timestamp. timestamp > timeWindowCutoff)
                        (failureTimestampsWithinWindow this) \<rparr>)"

definition handleSuccessfulExecution ::
  "('a, 'r) SingleMethodCircuitBreaker \<Rightarrow> ('a, 'r) SingleMethodCircuitBreaker" where
  "handleSuccessfulExecution this = closeCircuit this"

definition handleFailedExecution ::
  "int \<Rightarrow> ('a, 'r) SingleMethodCircuitBreaker \<Rightarrow> ('a, 'r) SingleMethodCircuitBreaker" where
  "handleFailedExecution currentTimestamp this =
     this\<lparr> failureTimestampsWithinWindow :=
             failureTimestampsWithinWindow this @ [currentTimestamp] \<rparr>"

text \<open>
  Line 53, \<open>(executionError as Error).message\<close>: reading a property of \<open>undefined\<close> or
  \<open>null\<close> throws a \<open>TypeError\<close>; any other value yields its message, if it has one.
\<close>

definition readMessage :: "error \<Rightarrow> error + string option" where
  "readMessage executionError =
     (case executionError of
        Error message \<Rightarrow> Inr (Some message)
      | TypeError message \<Rightarrow> Inr (Some message)
      | ThrownValue v \<Rightarrow> Inr None
      | ThrownUndefined \<Rightarrow>
          Inl (TypeError ''Cannot read properties of undefined (reading message)'')
      | ThrownNull \<Rightarrow>
          Inl (TypeError ''Cannot read properties of null (reading message)''))"

text \<open>
  What one call of \<open>executeWithCircuitBreaker\<close> leaves behind: the breaker after the call,
  what the returned promise settles to, and whether line 48
  (\<open>await originalMethodToExecute(...methodArguments)\<close>) was reached.
\<close>

record ('a, 'r) Execution =
  breakerAfter :: "('a, 'r) SingleMethodCircuitBreaker"
  settled :: "error + 'r"
  invokedOriginal :: bool

definition executeWithCircuitBreaker ::
  "('a, 'r) SingleMethodCircuitBreaker \<Rightarrow> int \<Rightarrow> ('a \<Rightarrow> error + 'r) \<Rightarrow> 'a \<Rightarrow> ('a, 'r) Execution" where
  "executeWithCircuitBreaker this currentTimestamp originalMethodToExecute methodArguments =
     (let this1 = removeOldFailureRecords currentTimestamp this;
          this2 = (if shouldOpenCircuit this1
                   then openCircuitAndSetResetTime currentTimestamp this1 else this1);
          this3 = (if shouldAttemptRecovery currentTimestamp this2
                   then setCircuitToHalfOpen this2 else this2)
      in if isCircuitCurrentlyOpen this3
         then \<lparr> breakerAfter = this3,
                settled = fallbackMethodToCall this3 methodArguments,
                invokedOriginal = False \<rparr>
         else (case originalMethodToExecute methodArguments of
                 Inr executionResult \<Rightarrow>
                   \<lparr> breakerAfter = handleSuccessfulExecution this3,
                     settled = Inr executionResult,
                     invokedOriginal = True \<rparr>
               | Inl executionError \<Rightarrow>
                   (let this4 = handleFailedExecution currentTimestamp this3
                    in case readMessage executionError of
                         Inl typeError \<Rightarrow>
                           \<lparr> breakerAfter = this4,
                             settled = Inl typeError,
                             invokedOriginal = True \<rparr>
                       | Inr message \<Rightarrow>
                           \<lparr> breakerAfter = this4,
                             settled = fallbackMethodToCall this3 methodArguments,
                             invokedOriginal = True \<rparr>)))"

record CircuitBreakerStatus =
  status_methodName :: string
  status_isCircuitOpen :: bool
  status_currentFailureCount :: nat
  status_maximumFailuresAllowed :: int
  status_timeWindowInMilliseconds :: int

definition getCurrentStatus :: "('a, 'r) SingleMethodCircuitBreaker \<Rightarrow> CircuitBreakerStatus" where
  "getCurrentStatus this =
     \<lparr> status_methodName = methodName this,
       status_isCircuitOpen = isCircuitCurrentlyOpen this,
       status_currentFailureCount = length (failureTimestampsWithinWindow this),
       status_maximumFailuresAllowed = maximumFailuresAllowed (configuration this),
       status_timeWindowInMilliseconds = timeWindowInMilliseconds (configuration this) \<rparr>"

text \<open>
  \<open>createCircuitBreakerMethod\<close>: the configuration and the fallback are optional. The
  function it returns closes over one breaker and the original method; here the breaker it
  creates is returned, and \<open>callProtectedMethod\<close> is one call of the returned function.
\<close>

definition defaultConfiguration :: CircuitBreakerConfig where
  "defaultConfiguration =
     \<lparr> maximumFailuresAllowed = 3,
       timeWindowInMilliseconds = 10000,
       resetTimeoutInMilliseconds = 5000 \<rparr>"

definition defaultFallback :: "'a \<Rightarrow> error + 'r" where
  "defaultFallback args = Inl (Error ''Service unavailable and no fallback method configured'')"

definition createCircuitBreakerMethod ::
  "string \<Rightarrow> CircuitBreakerConfig option \<Rightarrow> ('a \<Rightarrow> error + 'r) option
     \<Rightarrow> ('a, 'r) SingleMethodCircuitBreaker" where
  "createCircuitBreakerMethod originalMethodName configuration' fallbackMethod =
     (let finalConfiguration = (case configuration' of Some c \<Rightarrow> c | None \<Rightarrow> defaultConfiguration);
          finalFallback = (case fallbackMethod of Some f \<Rightarrow> f | None \<Rightarrow> defaultFallback)
      in newSingleMethodCircuitBreaker
           (if originalMethodName = [] then ''anonymous-method'' else originalMethodName)
           finalConfiguration finalFallback)"

definition callProtectedMethod ::
  "('a, 'r) SingleMethodCircuitBreaker \<Rightarrow> int \<Rightarrow> ('a \<Rightarrow> error + 'r) \<Rightarrow> 'a \<Rightarrow> ('a, 'r) Execution" where
  "callProtectedMethod circuitBreaker currentTimestamp originalMethod methodArguments =
     executeWithCircuitBreaker circuitBreaker currentTimestamp originalMethod methodArguments"

text \<open>
  A sequence of calls on one breaker, each with its clock value, the behaviour of the
  original method at that call and its arguments; the executions are returned in order.
\<close>

fun executeCalls ::
  "('a, 'r) SingleMethodCircuitBreaker \<Rightarrow> (int \<times> ('a \<Rightarrow> error + 'r) \<times> 'a) list
     \<Rightarrow> ('a, 'r) Execution list" where
  "executeCalls this [] = []"
| "executeCalls this ((currentTimestamp, originalMethod, methodArguments) # calls) =
     (let e = executeWithCircuitBreaker this currentTimestamp originalMethod methodArguments
      in e # executeCalls (breakerAfter e) calls)"

fun breakerAfterCalls ::
  "('a, 'r) SingleMethodCircuitBreaker \<Rightarrow> (int \<times> ('a \<Rightarrow> error + 'r) \<times> 'a) list
     \<Rightarrow> ('a, 'r) SingleMethodCircuitBreaker" where
  "breakerAfterCalls this [] = this"
| "breakerAfterCalls this ((currentTimestamp, originalMethod, methodArguments) # calls) =
     breakerAfterCalls
       (breakerAfter (executeWithCircuitBreaker this currentTimestamp originalMethod methodArguments))
       calls"

text \<open>The original method throws at this call.\<close>

definition callFails :: "(int \<times> ('a \<Rightarrow> error + 'r) \<times> 'a) \<Rightarrow> bool" where
  "callFails call = (case call of (currentTimestamp, originalMethod, methodArguments) \<Rightarrow>
                       isl (originalMethod methodArguments))"

section \<open>Service registry (service-discovery server, index.ts and index.js)\<close>

text \<open>
  \<open>interface ServiceInstance\<close>. The field \<open>id\<close> is written \<open>id'\<close>. The client's
  \<open>ServiceResponse\<close> is the same record (its optional \<open>status\<close> is never read).
\<close>

record ServiceInstance =
  id' :: string
  name :: string
  ip :: string
  port :: int
  heartbeatInterval :: int
  registeredAt :: int
  lastHeartbeat :: int

type_synonym ServiceGroup = "(string \<times> ServiceInstance) list"
type_synonym ServicesMap = "(string \<times> ServiceGroup) list"

text \<open>
  The JSON body of \<open>POST /register\<close> and \<open>POST /heartbeat\<close>. The handlers test the fields
  for truthiness, so a field may be absent (\<open>None\<close>).
\<close>

record ServiceRequest =
  req_name :: "string option"
  req_port :: "int option"
  req_heartbeatInterval :: "int option"

record TypedRequest =
  req_ip :: "string option"
  req_remoteAddress :: "string option"
  body :: ServiceRequest

record RegisterResponse =
  res_id :: string
  res_heartbeatInterval :: int
  res_registeredAt :: int

record HeartbeatResponse =
  ok :: bool
  res_lastHeartbeat :: int
  nextHeartbeatIn :: int

text \<open>\<open>res.json(x)\<close> is \<open>Json x\<close>; \<open>res.status(c).json({error: m})\<close> is \<open>Status c m\<close>.\<close>

datatype 'a Response = Json 'a | Status nat string

text \<open>
  The decimal digits of a number, as a template literal prints an integer port
  (magnitude below \<open>10^21\<close>).
\<close>

fun digitsOfNat :: "nat \<Rightarrow> string" where
  "digitsOfNat n =
     (if n < 10 then [''0123456789'' ! n]
      else digitsOfNat (n div 10) @ [''0123456789'' ! (n mod 10)])"

definition numberToString :: "int \<Rightarrow> string" where
  "numberToString i = (if i < 0 then CHR ''-'' # digitsOfNat (nat (- i)) else digitsOfNat (nat i))"

definition truthyString :: "string option \<Rightarrow> bool" where
  "truthyString s = (case s of None \<Rightarrow> False | Some v \<Rightarrow> v \<noteq> [])"

definition truthyNumber :: "int option \<Rightarrow> bool" where
  "truthyNumber n = (case n of None \<Rightarrow> False | Some v \<Rightarrow> v \<noteq> 0)"

definition getClientIP :: "TypedRequest \<Rightarrow> string" where
  "getClientIP req =
     (if truthyString (req_ip req) then the (req_ip req)
      else if truthyString (req_remoteAddress req) then the (req_remoteAddress req)
      else ''127.0.0.1'')"

definition createServiceId :: "string \<Rightarrow> string \<Rightarrow> int \<Rightarrow> string" where
  "createServiceId name' ip' port' = name' @ ''-'' @ ip' @ ''-'' @ numberToString port'"

definition isServiceAlive :: "int \<Rightarrow> ServiceInstance \<Rightarrow> bool" where
  "isServiceAlive now service =
     (let timeSinceLastHeartbeat = now - lastHeartbeat service;
          graceTime = of_int (heartbeatInterval service) * 1000 * (1 / 2 :: rat);
          maxAllowedTime = of_int (heartbeatInterval service) * 1000 + graceTime
      in of_int timeSinceLastHeartbeat \<le> maxAllowedTime)"

text \<open>
  Lines 60-64 of the handlers: \<open>if (!services.has(name)) services.set(name, new Map())\<close>,
  then \<open>services.get(name)!\<close>.
\<close>

definition getOrCreateGroup :: "ServicesMap \<Rightarrow> string \<Rightarrow> ServicesMap" where
  "getOrCreateGroup services' name' =
     (if map_of services' name' = None then AList.update name' [] services' else services')"

definition groupOf :: "ServicesMap \<Rightarrow> string \<Rightarrow> ServiceGroup" where
  "groupOf services' name' = (case map_of services' name' of None \<Rightarrow> [] | Some serviceGroup \<Rightarrow> serviceGroup)"

text \<open>\<open>app.post('/register')\<close>: the store after the request, and the response.\<close>

definition postRegister ::
  "ServicesMap \<Rightarrow> int \<Rightarrow> TypedRequest \<Rightarrow> ServicesMap \<times> RegisterResponse Response" where
  "postRegister services' now req =
     (let heartbeatInterval' = (case req_heartbeatInterval (body req) of None \<Rightarrow> 30 | Some h \<Rightarrow> h)
      in if \<not> truthyString (req_name (body req)) \<or> \<not> truthyNumber (req_port (body req))
         then (services', Status 400 ''Name and port are required'')
         else
           (let name' = the (req_name (body req));
                port' = the (req_port (body req));
                ip' = getClientIP req;
                id'' = createServiceId name' ip' port';
                services1 = getOrCreateGroup services' name';
                serviceGroup = groupOf services1 name';
                serviceGroup' = AList.update id''
                  \<lparr> id' = id'', name = name', ip = ip', port = port',
                    heartbeatInterval = heartbeatInterval',
                    registeredAt = now, lastHeartbeat = now \<rparr> serviceGroup
            in (AList.update name' serviceGroup' services1,
                Json \<lparr> res_id = id'', res_heartbeatInterval = heartbeatInterval',
                       res_registeredAt = now \<rparr>)))"

text \<open>
  \<open>app.post('/heartbeat')\<close>. The JavaScript server differs from the TypeScript one only in
  storing \<open>parseInt(port)\<close> when it creates a missing instance, which is \<open>port\<close> itself for
  an integer.
\<close>

definition postHeartbeat ::
  "ServicesMap \<Rightarrow> int \<Rightarrow> TypedRequest \<Rightarrow> ServicesMap \<times> HeartbeatResponse Response" where
  "postHeartbeat services' now req =
     (let heartbeatInterval' = (case req_heartbeatInterval (body req) of None \<Rightarrow> 30 | Some h \<Rightarrow> h)
      in if \<not> truthyString (req_name (body req)) \<or> \<not> truthyNumber (req_port (body req))
         then (services', Status 400 ''Name and port are required'')
         else
           (let name' = the (req_name (body req));
                port' = the (req_port (body req));
                ip' = getClientIP req;
                id'' = createServiceId name' ip' port';
                services1 = getOrCreateGroup services' name';
                serviceGroup = groupOf services1 name';
                serviceGroup1 =
                  (if map_of serviceGroup id'' = None
                   then AList.update id''
                          \<lparr> id' = id'', name = name', ip = ip', port = port',
                            heartbeatInterval = heartbeatInterval',
                            registeredAt = now, lastHeartbeat = now \<rparr> serviceGroup
                   else serviceGroup)
            in (case map_of serviceGroup1 id'' of
                  None \<Rightarrow> (services1, Status 500 ''TypeError'')
                | Some service \<Rightarrow>
                    (AList.update name'
                       (AList.update id'' (service\<lparr> lastHeartbeat := now \<rparr>) serviceGroup1)
                       services1,
                     Json \<lparr> ok = True, res_lastHeartbeat = now,
                            nextHeartbeatIn = heartbeatInterval service \<rparr>))))"

text \<open>\<open>app.get('/services/:name')\<close>: the \<open>services\<close> array of the response.\<close>

definition getServicesByName :: "ServicesMap \<Rightarrow> int \<Rightarrow> string \<Rightarrow> ServiceInstance list Response" where
  "getServicesByName services' now name' =
     (if map_of services' name' = None then Json []
      else (let serviceGroup = groupOf services' name';
                aliveServices = filter (\<lambda>service. isServiceAlive now service) (map snd serviceGroup)
            in Json aliveServices))"

text \<open>
  A JavaScript \<open>Map\<close> holds each key once; this is the invariant of its representation as
  an association list.
\<close>

definition wellFormedStore :: "ServicesMap \<Rightarrow> bool" where
  "wellFormedStore services' =
     (distinct (map fst services') \<and> list_all (\<lambda>entry. distinct (map fst (snd entry))) services')"

section \<open>Discovery client (service-discovery client, index.ts and index.js)\<close>

record ServiceDiscoveryClientOptions =
  defaultHeartbeatInterval :: int
  cacheMultiplier :: int
  requestTimeout :: int

record CurrentService =
  cs_name :: string
  cs_port :: int
  cs_heartbeatInterval :: int
  cs_id :: string

record ServiceCacheEntry =
  services :: "ServiceInstance list"
  cachedAt :: int
  expiresAt :: int

text \<open>
  A timer made by \<open>setInterval(callback, interval)\<close>: its period in milliseconds, and
  whether \<open>clearInterval\<close> has not yet been called on it.
\<close>

record Timer =
  timer_interval :: int
  timer_active :: bool

record ServiceDiscoveryClient =
  discoveryServerUrl :: string
  options :: ServiceDiscoveryClientOptions
  currentService :: "CurrentService option"
  heartbeatTimer :: "Timer option"
  isRegistered :: bool
  serviceCache :: "(string \<times> ServiceCacheEntry) list"

text \<open>The requests the client hands to \<open>httpClient\<close>: the URL and, for a POST, the payload.\<close>

record RequestPayload =
  payload_name :: string
  payload_port :: int
  payload_heartbeatInterval :: int

datatype HttpRequest = POST string RequestPayload | GET string | DELETE string

text \<open>
  \<open>_sendHeartbeat\<close> changes no field of the client and its promise always resolves (a
  failed request is logged), so the model returns the request it sends, if any.
  The TypeScript client (index.ts, lines 146-166):
\<close>

definition sendHeartbeat :: "ServiceDiscoveryClient \<Rightarrow> HttpRequest list" where
  "sendHeartbeat this =
     (case currentService this of
        None \<Rightarrow> []
      | Some cs \<Rightarrow>
          [POST (discoveryServerUrl this @ ''/heartbeat'')
             \<lparr> payload_name = cs_name cs, payload_port = cs_port cs,
               payload_heartbeatInterval = cs_heartbeatInterval cs \<rparr>])"

text \<open>The JavaScript client (index.js, lines 177-199):\<close>

definition sendHeartbeat_js :: "ServiceDiscoveryClient \<Rightarrow> HttpRequest list" where
  "sendHeartbeat_js this =
     (case currentService this of
        None \<Rightarrow> []
      | Some cs \<Rightarrow>
          [POST (discoveryServerUrl this @ ''/heartbeat'')
             \<lparr> payload_name = cs_name cs, payload_port = cs_port cs,
               payload_heartbeatInterval = defaultHeartbeatInterval (options this) \<rparr>])"

definition clearOldTimer :: "ServiceDiscoveryClient \<Rightarrow> ServiceDiscoveryClient" where
  "clearOldTimer this =
     (case heartbeatTimer this of
        None \<Rightarrow> this
      | Some t \<Rightarrow> this\<lparr> heartbeatTimer := Some (t\<lparr> timer_active := False \<rparr>) \<rparr>)"

text \<open>
  \<open>_startHeartbeat\<close>, given the client's own \<open>_sendHeartbeat\<close>: the client with its
  new timer, and the heartbeat sent at once. The JavaScript client has no test of
  \<open>currentService\<close> here; \<open>register\<close>, its only caller, has set it.
\<close>

definition startHeartbeatWith ::
  "(ServiceDiscoveryClient \<Rightarrow> HttpRequest list) \<Rightarrow> ServiceDiscoveryClient
     \<Rightarrow> ServiceDiscoveryClient \<times> HttpRequest list" where
  "startHeartbeatWith send this =
     (let this1 = clearOldTimer this
      in case currentService this1 of
           None \<Rightarrow> (this1, [])
         | Some cs \<Rightarrow>
             (let interval = cs_heartbeatInterval cs * 1000;
                  this2 = this1\<lparr> heartbeatTimer :=
                                  Some \<lparr> timer_interval = interval, timer_active = True \<rparr> \<rparr>
              in (this2, send this2)))"

definition startHeartbeat :: "ServiceDiscoveryClient \<Rightarrow> ServiceDiscoveryClient \<times> HttpRequest list" where
  "startHeartbeat this = startHeartbeatWith sendHeartbeat this"

definition startHeartbeat_js :: "ServiceDiscoveryClient \<Rightarrow> ServiceDiscoveryClient \<times> HttpRequest list" where
  "startHeartbeat_js this = startHeartbeatWith sendHeartbeat_js this"

text \<open>
  \<open>register\<close>: \<open>registerReply\<close> is what the POST to \<open>/register\<close> settles to. The result is
  the client afterwards, what the promise settles to, and the requests sent, in order.
\<close>

definition registerWith ::
  "(ServiceDiscoveryClient \<Rightarrow> ServiceDiscoveryClient \<times> HttpRequest list)
     \<Rightarrow> ServiceDiscoveryClient \<Rightarrow> string \<Rightarrow> int \<Rightarrow> error + RegisterResponse
     \<Rightarrow> ServiceDiscoveryClient \<times> (error + RegisterResponse) \<times> HttpRequest list" where
  "registerWith start this serviceName servicePort registerReply =
     (let payload = \<lparr> payload_name = serviceName, payload_port = servicePort,
                      payload_heartbeatInterval = defaultHeartbeatInterval (options this) \<rparr>;
          request = POST (discoveryServerUrl this @ ''/register'') payload
      in case registerReply of
           Inl e \<Rightarrow> (this, Inl e, [request])
         | Inr response \<Rightarrow>
             (let this1 = this\<lparr> currentService :=
                                  Some \<lparr> cs_name = serviceName, cs_port = servicePort,
                                         cs_heartbeatInterval = res_heartbeatInterval response,
                                         cs_id = res_id response \<rparr>,
                                isRegistered := True \<rparr>;
                  (this2, sent) = start this1
              in (this2, Inr response, request # sent)))"

definition register ::
  "ServiceDiscoveryClient \<Rightarrow> string \<Rightarrow> int \<Rightarrow> error + RegisterResponse
     \<Rightarrow> ServiceDiscoveryClient \<times> (error + RegisterResponse) \<times> HttpRequest list" where
  "register this serviceName servicePort registerReply =
     registerWith startHeartbeat this serviceName servicePort registerReply"

definition register_js ::
  "ServiceDiscoveryClient \<Rightarrow> string \<Rightarrow> int \<Rightarrow> error + RegisterResponse
     \<Rightarrow> ServiceDiscoveryClient \<times> (error + RegisterResponse) \<times> HttpRequest list" where
  "register_js this serviceName servicePort registerReply =
     registerWith startHeartbeat_js this serviceName servicePort registerReply"

text \<open>One firing of the recurring timer: its callback runs if the timer is still active.\<close>

definition timerFires :: "ServiceDiscoveryClient \<Rightarrow> HttpRequest list" where
  "timerFires this =
     (case heartbeatTimer this of
        None \<Rightarrow> []
      | Some t \<Rightarrow> if timer_active t then sendHeartbeat this else [])"

definition timerFires_js :: "ServiceDiscoveryClient \<Rightarrow> HttpRequest list" where
  "timerFires_js this =
     (case heartbeatTimer this of
        None \<Rightarrow> []
      | Some t \<Rightarrow> if timer_active t then sendHeartbeat_js this else [])"

definition formatUrl :: "string \<Rightarrow> int \<Rightarrow> string" where
  "formatUrl ip' port' =
     (if CHR '':'' \<in> set ip' then ''http://['' @ ip' @ '']:'' @ numberToString port'
      else ''http://'' @ ip' @ '':'' @ numberToString port')"

text \<open>
  \<open>_selectRandomService\<close>: \<open>rnd\<close> is the value of \<open>Math.random()\<close>. An index outside the
  array reads \<open>undefined\<close>, whose \<open>ip\<close> cannot be read.
\<close>

definition selectRandomService :: "ServiceInstance list \<Rightarrow> rat \<Rightarrow> error + string" where
  "selectRandomService services' rnd =
     (if services' = [] then Inl (Error ''No instances available'')
      else (let randomIndex = \<lfloor>rnd * of_nat (length services')\<rfloor>
            in if 0 \<le> randomIndex \<and> randomIndex < int (length services')
               then (let selectedService = services' ! nat randomIndex
                     in Inr (formatUrl (ip selectedService) (port selectedService)))
               else Inl (Error ''TypeError: cannot read properties of undefined'')))"

definition getCachedServices :: "ServiceDiscoveryClient \<Rightarrow> string \<Rightarrow> ServiceInstance list option" where
  "getCachedServices this serviceName =
     (case map_of (serviceCache this) serviceName of
        None \<Rightarrow> None
      | Some cacheEntry \<Rightarrow> Some (services cacheEntry))"

definition isCacheValid :: "ServiceDiscoveryClient \<Rightarrow> int \<Rightarrow> string \<Rightarrow> bool" where
  "isCacheValid this now serviceName =
     (case map_of (serviceCache this) serviceName of
        None \<Rightarrow> False
      | Some cacheEntry \<Rightarrow> now < expiresAt cacheEntry)"

text \<open>\<open>Math.min(...xs)\<close> on a non-empty array.\<close>

fun mathMin :: "int \<Rightarrow> int list \<Rightarrow> int" where
  "mathMin x [] = x"
| "mathMin x (y # ys) = mathMin (min x y) ys"

text \<open>
  \<open>_updateCache\<close>: \<open>now1\<close> is the value of the \<open>Date.now()\<close> that fills \<open>cachedAt\<close>, \<open>now2\<close>
  of the one that is added to the cache duration.
\<close>

definition updateCache ::
  "ServiceDiscoveryClient \<Rightarrow> int \<Rightarrow> int \<Rightarrow> string \<Rightarrow> ServiceInstance list
     \<Rightarrow> ServiceDiscoveryClient" where
  "updateCache this now1 now2 serviceName services' =
     (case map heartbeatInterval services' of
        [] \<Rightarrow> this
      | h # hs \<Rightarrow>
          (let minHeartbeatInterval = mathMin h hs;
               cacheDuration = minHeartbeatInterval * 1000 * cacheMultiplier (options this);
               cacheEntry = \<lparr> services = services', cachedAt = now1,
                              expiresAt = now2 + cacheDuration \<rparr>
           in this\<lparr> serviceCache := AList.update serviceName cacheEntry (serviceCache this) \<rparr>))"

text \<open>
  \<open>_fetchServices\<close>: \<open>fetchReply\<close> is what the GET settles to, with the \<open>services\<close> field
  of the response body if it has one; \<open>response.data.services || []\<close>.
\<close>

definition fetchServices :: "error + ServiceInstance list option \<Rightarrow> error + ServiceInstance list" where
  "fetchServices fetchReply =
     (case fetchReply of
        Inl e \<Rightarrow> Inl e
      | Inr None \<Rightarrow> Inr []
      | Inr (Some services') \<Rightarrow> Inr services')"

definition noInstancesAvailable :: "string \<Rightarrow> error" where
  "noInstancesAvailable serviceName = Error (''No instances available for service: '' @ serviceName)"

text \<open>Lines 204-211 of index.ts (224-232 of index.js): the stale cache, or the error.\<close>

definition staleCacheOrThrow :: "ServiceInstance list option \<Rightarrow> string \<Rightarrow> rat \<Rightarrow> error + string" where
  "staleCacheOrThrow cachedServices serviceName rnd =
     (case cachedServices of
        Some cached \<Rightarrow>
          if cached \<noteq> [] then selectRandomService cached rnd
          else Inl (noInstancesAvailable serviceName)
      | None \<Rightarrow> Inl (noInstancesAvailable serviceName))"

text \<open>
  \<open>getServiceUrl\<close> of the TypeScript client (index.ts, lines 180-212). The fetch and the
  use of its result are inside \<open>try\<close>: whatever is thrown there is logged, and control
  falls through to the stale cache. \<open>now\<close> is the clock value read by \<open>_isCacheValid\<close>,
  \<open>now1\<close> and \<open>now2\<close> are the two read by \<open>_updateCache\<close>. The result is the client
  afterwards, what the promise settles to, and the requests sent.
\<close>

definition getServiceUrl ::
  "ServiceDiscoveryClient \<Rightarrow> int \<Rightarrow> int \<Rightarrow> int \<Rightarrow> string
     \<Rightarrow> error + ServiceInstance list option \<Rightarrow> rat
     \<Rightarrow> ServiceDiscoveryClient \<times> (error + string) \<times> HttpRequest list" where
  "getServiceUrl this now now1 now2 serviceName fetchReply rnd =
     (let cachedServices = getCachedServices this serviceName;
          request = GET (discoveryServerUrl this @ ''/services/'' @ serviceName)
      in if cachedServices \<noteq> None \<and> the cachedServices \<noteq> [] \<and> isCacheValid this now serviceName
         then (this, selectRandomService (the cachedServices) rnd, [])
         else
           (case fetchServices fetchReply of
              Inr freshServices \<Rightarrow>
                if freshServices \<noteq> []
                then (let this1 = updateCache this now1 now2 serviceName freshServices
                      in case selectRandomService freshServices rnd of
                           Inr url \<Rightarrow> (this1, Inr url, [request])
                         | Inl e \<Rightarrow> (this1, staleCacheOrThrow cachedServices serviceName rnd, [request]))
                else (this, staleCacheOrThrow cachedServices serviceName rnd, [request])
            | Inl e \<Rightarrow> (this, staleCacheOrThrow cachedServices serviceName rnd, [request])))"

text \<open>
  \<open>getServiceUrl\<close> of the JavaScript client (index.js, lines 204-233): there is no \<open>try\<close>,
  so a rejected fetch rejects the call.
\<close>

definition getServiceUrl_js ::
  "ServiceDiscoveryClient \<Rightarrow> int \<Rightarrow> int \<Rightarrow> int \<Rightarrow> string
     \<Rightarrow> error + ServiceInstance list option \<Rightarrow> rat
     \<Rightarrow> ServiceDiscoveryClient \<times> (error + string) \<times> HttpRequest list" where
  "getServiceUrl_js this now now1 now2 serviceName fetchReply rnd =
     (let cachedServices = getCachedServices this serviceName;
          request = GET (discoveryServerUrl this @ ''/services/'' @ serviceName)
      in if cachedServices \<noteq> None \<and> the cachedServices \<noteq> [] \<and> isCacheValid this now serviceName
         then (this, selectRandomService (the cachedServices) rnd, [])
         else
           (case fetchServices fetchReply of
              Inl e \<Rightarrow> (this, Inl e, [request])
            | Inr freshServices \<Rightarrow>
                if freshServices \<noteq> []
                then (updateCache this now1 now2 serviceName freshServices,
                      selectRandomService freshServices rnd, [request])
                else (this, staleCacheOrThrow cachedServices serviceName rnd, [request])))"

text \<open>
  The constructor: the trailing slash of the URL is removed and the options are merged
  with their defaults by the caller; no service, no timer, an empty cache.
\<close>

definition newServiceDiscoveryClient ::
  "string \<Rightarrow> ServiceDiscoveryClientOptions \<Rightarrow> ServiceDiscoveryClient" where
  "newServiceDiscoveryClient url opts =
     \<lparr> discoveryServerUrl = url, options = opts, currentService = None,
       heartbeatTimer = None, isRegistered = False, serviceCache = [] \<rparr>"

definition defaultOptions :: ServiceDiscoveryClientOptions where
  "defaultOptions = \<lparr> defaultHeartbeatInterval = 30, cacheMultiplier = 2, requestTimeout = 5000 \<rparr>"

text \<open>Every cached entry holds at least one instance.\<close>

definition cacheEntriesNonEmpty :: "ServiceDiscoveryClient \<Rightarrow> bool" where
  "cacheEntriesNonEmpty this = list_all (\<lambda>entry. services (snd entry) \<noteq> []) (serviceCache this)"

section \<open>Auxiliary notions and concrete inputs\<close>

text \<open>
  A breaker made by \<open>createCircuitBreakerMethod\<close> with the default configuration
  (3 failures, window 10000 ms, reset timeout 5000 ms) and a fallback that returns a fixed
  value; an operation that always throws an \<open>Error\<close>, one whose promise is rejected
  without a reason (\<open>Promise.reject()\<close>), and one that always returns.
\<close>

definition exampleBreaker :: "(nat, string) SingleMethodCircuitBreaker" where
  "exampleBreaker =
     createCircuitBreakerMethod ''fetchUsers'' None (Some (\<lambda>n. Inr ''fallback''))"

definition alwaysFails :: "nat \<Rightarrow> error + string" where
  "alwaysFails n = Inl (Error ''ECONNREFUSED'')"

definition rejectsWithUndefined :: "nat \<Rightarrow> error + string" where
  "rejectsWithUndefined n = Inl ThrownUndefined"

definition alwaysSucceeds :: "nat \<Rightarrow> error + string" where
  "alwaysSucceeds n = Inr ''users''"

text \<open>The number of instances in the \<open>services\<close> array of a discover response.\<close>

definition discoveredCount :: "ServicesMap \<Rightarrow> int \<Rightarrow> string \<Rightarrow> nat" where
  "discoveredCount services' now name' =
     (case getServicesByName services' now name' of
        Json aliveServices \<Rightarrow> length aliveServices
      | Status code message \<Rightarrow> 0)"

text \<open>
  A register request for \<open>svc-a\<close> on port 9000 from 10.0.0.1 with the default interval,
  a heartbeat request of the same instance that asks for another interval, a register
  request of the same instance with a negative interval (the handler accepts it), and the
  store after the first registration at time 0.
\<close>

definition registerSvcA :: TypedRequest where
  "registerSvcA =
     \<lparr> req_ip = Some ''10.0.0.1'', req_remoteAddress = None,
       body = \<lparr> req_name = Some ''svc-a'', req_port = Some 9000,
                req_heartbeatInterval = None \<rparr> \<rparr>"

definition heartbeatSvcA :: TypedRequest where
  "heartbeatSvcA =
     \<lparr> req_ip = Some ''10.0.0.1'', req_remoteAddress = None,
       body = \<lparr> req_name = Some ''svc-a'', req_port = Some 9000,
                req_heartbeatInterval = Some 5 \<rparr> \<rparr>"

definition registerSvcANegative :: TypedRequest where
  "registerSvcANegative =
     \<lparr> req_ip = Some ''10.0.0.1'', req_remoteAddress = None,
       body = \<lparr> req_name = Some ''svc-a'', req_port = Some 9000,
                req_heartbeatInterval = Some (- 1) \<rparr> \<rparr>"

definition storeWithSvcA :: ServicesMap where
  "storeWithSvcA = fst (postRegister [] 0 registerSvcA)"

text \<open>
  The object that the register handler builds for a request with a name and a port
  (lines 67-75), used to state what the store holds afterwards.
\<close>

definition registeredInstance :: "TypedRequest \<Rightarrow> int \<Rightarrow> ServiceInstance" where
  "registeredInstance req now =
     \<lparr> id' = createServiceId (the (req_name (body req))) (getClientIP req) (the (req_port (body req))),
       name = the (req_name (body req)),
       ip = getClientIP req,
       port = the (req_port (body req)),
       heartbeatInterval = (case req_heartbeatInterval (body req) of None \<Rightarrow> 30 | Some h \<Rightarrow> h),
       registeredAt = now,
       lastHeartbeat = now \<rparr>"

text \<open>
  A client with the default options; the answer of a registry that confirms an interval
  of 10 s; two instances of \<open>order-service\<close>, one of them on an IPv6 address; and the
  client after it has resolved \<open>order-service\<close> from a registry that returned both, every
  clock read of that call returning 0.
\<close>

definition exampleClient :: ServiceDiscoveryClient where
  "exampleClient = newServiceDiscoveryClient ''http://localhost:3000'' defaultOptions"

definition confirmsTenSeconds :: "error + RegisterResponse" where
  "confirmsTenSeconds =
     Inr \<lparr> res_id = ''user-service-10.0.0.1-4000'', res_heartbeatInterval = 10,
           res_registeredAt = 0 \<rparr>"

definition orderInstances :: "ServiceInstance list" where
  "orderInstances =
     [\<lparr> id' = ''order-service-10.0.0.2-5000'', name = ''order-service'', ip = ''10.0.0.2'',
        port = 5000, heartbeatInterval = 30, registeredAt = 0, lastHeartbeat = 0 \<rparr>,
      \<lparr> id' = ''order-service-::1-5001'', name = ''order-service'', ip = ''::1'',
        port = 5001, heartbeatInterval = 20, registeredAt = 0, lastHeartbeat = 0 \<rparr>]"

definition clientWithCache :: ServiceDiscoveryClient where
  "clientWithCache =
     fst (getServiceUrl exampleClient 0 0 0 ''order-service'' (Inr (Some orderInstances)) 0)"

definition registryUnreachable :: "error + ServiceInstance list option" where
  "registryUnreachable = Inl (Error ''connect ECONNREFUSED 127.0.0.1:3000'')"

text \<open>The three components of what a client operation returns.\<close>

abbreviation clientAfter :: "ServiceDiscoveryClient \<times> 'r \<times> HttpRequest list \<Rightarrow> ServiceDiscoveryClient" where
  "clientAfter outcome \<equiv> fst outcome"

abbreviation settledTo :: "ServiceDiscoveryClient \<times> 'r \<times> HttpRequest list \<Rightarrow> 'r" where
  "settledTo outcome \<equiv> fst (snd outcome)"

abbreviation requestsSent :: "ServiceDiscoveryClient \<times> 'r \<times> HttpRequest list \<Rightarrow> HttpRequest list" where
  "requestsSent outcome \<equiv> snd (snd outcome)"

section \<open>Circuit breaker: properties\<close>

lemmas breaker_defs =
  executeWithCircuitBreaker_def removeOldFailureRecords_def shouldOpenCircuit_def
  openCircuitAndSetResetTime_def shouldAttemptRecovery_def setCircuitToHalfOpen_def
  handleSuccessfulExecution_def closeCircuit_def handleFailedExecution_def

lemma execute_keeps_configuration:
  "configuration (breakerAfter (executeWithCircuitBreaker this now originalMethod methodArguments))
     = configuration this"
  by (simp add: breaker_defs Let_def split: sum.splits)

lemma execute_keeps_fallback:
  "fallbackMethodToCall (breakerAfter (executeWithCircuitBreaker this now originalMethod methodArguments))
     = fallbackMethodToCall this"
  by (simp add: breaker_defs Let_def split: sum.splits)

text \<open>
  A call on a breaker whose flag is down and whose history is below the threshold reaches
  the original method, leaves the flag down and adds at most one timestamp.
\<close>

lemma execute_below_threshold:
  assumes "\<not> isCircuitCurrentlyOpen this"
    and "int (length (failureTimestampsWithinWindow this)) < maximumFailuresAllowed (configuration this)"
  shows "invokedOriginal (executeWithCircuitBreaker this now originalMethod methodArguments)"
    and "\<not> isCircuitCurrentlyOpen
             (breakerAfter (executeWithCircuitBreaker this now originalMethod methodArguments))"
    and "length (failureTimestampsWithinWindow
             (breakerAfter (executeWithCircuitBreaker this now originalMethod methodArguments)))
           \<le> Suc (length (failureTimestampsWithinWindow this))"
proof -
  let ?kept = "filter (\<lambda>timestamp. timestamp > now - timeWindowInMilliseconds (configuration this))
                 (failureTimestampsWithinWindow this)"
  have kept: "length ?kept \<le> length (failureTimestampsWithinWindow this)"
    by simp
  with assms(2) have below: "\<not> maximumFailuresAllowed (configuration this) \<le> int (length ?kept)"
    by linarith
  show "invokedOriginal (executeWithCircuitBreaker this now originalMethod methodArguments)"
    using assms(1) below by (simp add: breaker_defs Let_def split: sum.splits)
  show "\<not> isCircuitCurrentlyOpen
           (breakerAfter (executeWithCircuitBreaker this now originalMethod methodArguments))"
    using assms(1) below by (simp add: breaker_defs Let_def split: sum.splits)
  show "length (failureTimestampsWithinWindow
           (breakerAfter (executeWithCircuitBreaker this now originalMethod methodArguments)))
         \<le> Suc (length (failureTimestampsWithinWindow this))"
    using assms(1) below kept by (simp add: breaker_defs Let_def split: sum.splits)
qed

lemma execute_success_clears:
  assumes "invokedOriginal (executeWithCircuitBreaker this now originalMethod methodArguments)"
    and "originalMethod methodArguments = Inr executionResult"
  shows "failureTimestampsWithinWindow
           (breakerAfter (executeWithCircuitBreaker this now originalMethod methodArguments)) = []"
  using assms by (simp add: breaker_defs Let_def split: if_splits)

lemma executeCalls_append:
  "executeCalls this (calls @ calls') =
     executeCalls this calls @ executeCalls (breakerAfterCalls this calls) calls'"
  by (induction calls arbitrary: this) (auto simp: Let_def)

lemma breakerAfterCalls_append:
  "breakerAfterCalls this (calls @ calls') =
     breakerAfterCalls (breakerAfterCalls this calls) calls'"
  by (induction calls arbitrary: this) auto

lemma breakerAfterCalls_keeps_configuration:
  "configuration (breakerAfterCalls this calls) = configuration this"
  by (induction calls arbitrary: this) (auto simp: execute_keeps_configuration)

text \<open>
  As long as the history cannot reach the threshold before the last of the calls starts,
  every one of them reaches the original method and none raises the flag.
\<close>

lemma calls_below_threshold:
  assumes "\<not> isCircuitCurrentlyOpen this"
    and "int (length (failureTimestampsWithinWindow this)) + int (length calls)
           \<le> maximumFailuresAllowed (configuration this)"
  shows "(\<forall>e \<in> set (executeCalls this calls).
            invokedOriginal e \<and> \<not> isCircuitCurrentlyOpen (breakerAfter e))
         \<and> \<not> isCircuitCurrentlyOpen (breakerAfterCalls this calls)
         \<and> length (failureTimestampsWithinWindow (breakerAfterCalls this calls))
              \<le> length (failureTimestampsWithinWindow this) + length calls"
  using assms
proof (induction calls arbitrary: this)
  case Nil
  then show ?case by simp
next
  case (Cons call calls)
  obtain now originalMethod methodArguments where call: "call = (now, originalMethod, methodArguments)"
    by (cases call) auto
  let ?e = "executeWithCircuitBreaker this now originalMethod methodArguments"
  have below: "int (length (failureTimestampsWithinWindow this))
                 < maximumFailuresAllowed (configuration this)"
    using Cons.prems(2) by simp
  note step = execute_below_threshold [OF Cons.prems(1) below, of now originalMethod methodArguments]
  have "int (length (failureTimestampsWithinWindow (breakerAfter ?e))) + int (length calls)
          \<le> maximumFailuresAllowed (configuration (breakerAfter ?e))"
    using step(3) Cons.prems(2) by (simp add: execute_keeps_configuration)
  from Cons.IH [OF step(2) this] step show ?case
    by (auto simp: call Let_def)
qed

lemmas example_breaker_defs =
  exampleBreaker_def createCircuitBreakerMethod_def newSingleMethodCircuitBreaker_def
  defaultConfiguration_def alwaysFails_def alwaysSucceeds_def

text \<open>
  When the operation throws a value whose \<open>message\<close> can be read (anything but
  \<open>undefined\<close> and \<open>null\<close>), the call settles to the fallback applied to the same
  arguments; a breaker created without a fallback then settles to the fixed error
  "Service unavailable and no fallback method configured". Whatever is thrown, if the
  operation was really invoked the timestamp of the call is appended to the pruned history.
\<close>

lemma failure_returns_fallback:
  assumes "originalMethod methodArguments = Inl executionError"
  shows "readMessage executionError = Inr message \<longrightarrow>
           settled (executeWithCircuitBreaker this now originalMethod methodArguments)
             = fallbackMethodToCall this methodArguments
           \<and> settled (callProtectedMethod (createCircuitBreakerMethod name' cfg None) now
                        originalMethod methodArguments)
               = Inl (Error ''Service unavailable and no fallback method configured'')"
    and "invokedOriginal (executeWithCircuitBreaker this now originalMethod methodArguments) \<longrightarrow>
           failureTimestampsWithinWindow
               (breakerAfter (executeWithCircuitBreaker this now originalMethod methodArguments))
             = filter (\<lambda>timestamp. timestamp > now - timeWindowInMilliseconds (configuration this))
                      (failureTimestampsWithinWindow this) @ [now]"
  using assms
  by (auto simp: breaker_defs Let_def callProtectedMethod_def createCircuitBreakerMethod_def
        newSingleMethodCircuitBreaker_def defaultFallback_def
        split: if_splits option.splits sum.splits)

text \<open>
  C3. The claim says that for every wrapped operation that throws, the call returns the
  result of the configured fallback and never an error, and that without a fallback it
  throws the generic error. The catch block reads \<open>(executionError as Error).message\<close> for
  its log line before it calls the fallback. When the operation rejects with
  \<open>undefined\<close>, the failure is recorded, but that read throws a \<open>TypeError\<close>: the call
  rejects with it although a fallback is configured, and a breaker without a fallback
  rejects with the \<open>TypeError\<close> too, not with the generic error.
\<close>

theorem C3_undefined_rejection_bypasses_fallback:
  "rejectsWithUndefined 7 = Inl ThrownUndefined
   \<and> fallbackMethodToCall exampleBreaker 7 = Inr ''fallback''
   \<and> invokedOriginal (executeWithCircuitBreaker exampleBreaker 1000 rejectsWithUndefined 7)
   \<and> failureTimestampsWithinWindow
        (breakerAfter (executeWithCircuitBreaker exampleBreaker 1000 rejectsWithUndefined 7)) = [1000]
   \<and> settled (executeWithCircuitBreaker exampleBreaker 1000 rejectsWithUndefined 7)
        = Inl (TypeError ''Cannot read properties of undefined (reading message)'')
   \<and> settled (callProtectedMethod (createCircuitBreakerMethod ''fetchUsers'' None None) 1000
                rejectsWithUndefined 7)
        = (Inl (TypeError ''Cannot read properties of undefined (reading message)'')
             :: error + string)
   \<and> settled (executeWithCircuitBreaker exampleBreaker 1000 alwaysFails 7) = Inr ''fallback''"
  by (simp add: breaker_defs Let_def example_breaker_defs rejectsWithUndefined_def
        readMessage_def callProtectedMethod_def defaultFallback_def)

text \<open>
  C9. Whenever the original method is invoked and returns, in the closed state or as the
  trial after the reset timeout, the failure history is emptied and the reported failure
  count is zero. Hence fewer than \<open>maximumFailuresAllowed\<close> failing calls, one successful
  call and again fewer than \<open>maximumFailuresAllowed\<close> failing calls on a new breaker never
  raise the open flag: every one of these calls reaches the original method, and the next
  call would not open the circuit either.
\<close>

theorem C9_success_clears_failure_history:
  "(invokedOriginal (executeWithCircuitBreaker this now originalMethod methodArguments)
      \<and> originalMethod methodArguments = Inr executionResult \<longrightarrow>
    failureTimestampsWithinWindow
        (breakerAfter (executeWithCircuitBreaker this now originalMethod methodArguments)) = []
    \<and> status_currentFailureCount
        (getCurrentStatus
           (breakerAfter (executeWithCircuitBreaker this now originalMethod methodArguments))) = 0)
   \<and> (list_all callFails failuresBefore \<and> list_all callFails failuresAfter
        \<and> int (length failuresBefore) < maximumFailuresAllowed cfg
        \<and> int (length failuresAfter) < maximumFailuresAllowed cfg
        \<and> succeedingMethod succeedingArguments = Inr result \<longrightarrow>
       (\<forall>e \<in> set (executeCalls (newSingleMethodCircuitBreaker name' cfg fallback)
                     (failuresBefore @ [(t, succeedingMethod, succeedingArguments)] @ failuresAfter)).
           invokedOriginal e \<and> \<not> isCircuitCurrentlyOpen (breakerAfter e))
       \<and> \<not> shouldOpenCircuit
            (breakerAfterCalls (newSingleMethodCircuitBreaker name' cfg fallback)
               (failuresBefore @ [(t, succeedingMethod, succeedingArguments)] @ failuresAfter)))"
proof (intro conjI impI)
  assume a: "invokedOriginal (executeWithCircuitBreaker this now originalMethod methodArguments)
      \<and> originalMethod methodArguments = Inr executionResult"
  then show cleared: "failureTimestampsWithinWindow
        (breakerAfter (executeWithCircuitBreaker this now originalMethod methodArguments)) = []"
    by (simp add: execute_success_clears)
  then show "status_currentFailureCount
        (getCurrentStatus
           (breakerAfter (executeWithCircuitBreaker this now originalMethod methodArguments))) = 0"
    by (simp add: getCurrentStatus_def)
next
  assume a: "list_all callFails failuresBefore \<and> list_all callFails failuresAfter
        \<and> int (length failuresBefore) < maximumFailuresAllowed cfg
        \<and> int (length failuresAfter) < maximumFailuresAllowed cfg
        \<and> succeedingMethod succeedingArguments = Inr result"
  let ?b0 = "newSingleMethodCircuitBreaker name' cfg fallback"
  let ?b1 = "breakerAfterCalls ?b0 failuresBefore"
  let ?e = "executeWithCircuitBreaker ?b1 t succeedingMethod succeedingArguments"
  let ?b2 = "breakerAfter ?e"
  let ?b3 = "breakerAfterCalls ?b2 failuresAfter"
  have b0: "\<not> isCircuitCurrentlyOpen ?b0" "failureTimestampsWithinWindow ?b0 = []"
    "configuration ?b0 = cfg"
    by (simp_all add: newSingleMethodCircuitBreaker_def)
  have first: "(\<forall>e \<in> set (executeCalls ?b0 failuresBefore).
                  invokedOriginal e \<and> \<not> isCircuitCurrentlyOpen (breakerAfter e))
               \<and> \<not> isCircuitCurrentlyOpen ?b1
               \<and> length (failureTimestampsWithinWindow ?b1)
                    \<le> length (failureTimestampsWithinWindow ?b0) + length failuresBefore"
    by (rule calls_below_threshold) (use a b0 in simp_all)
  have cfg1: "configuration ?b1 = cfg"
    using b0(3) by (simp add: breakerAfterCalls_keeps_configuration)
  have below1: "int (length (failureTimestampsWithinWindow ?b1))
                  < maximumFailuresAllowed (configuration ?b1)"
    using first a b0(2) cfg1 by simp
  have closed1: "\<not> isCircuitCurrentlyOpen ?b1"
    using first by simp
  note middle = execute_below_threshold [OF closed1 below1, of t succeedingMethod succeedingArguments]
  have cleared: "failureTimestampsWithinWindow ?b2 = []"
    using middle(1) a by (simp add: execute_success_clears)
  have cfg2: "configuration ?b2 = cfg"
    using cfg1 by (simp add: execute_keeps_configuration)
  have second: "(\<forall>e \<in> set (executeCalls ?b2 failuresAfter).
                  invokedOriginal e \<and> \<not> isCircuitCurrentlyOpen (breakerAfter e))
               \<and> \<not> isCircuitCurrentlyOpen ?b3
               \<and> length (failureTimestampsWithinWindow ?b3)
                    \<le> length (failureTimestampsWithinWindow ?b2) + length failuresAfter"
    by (rule calls_below_threshold) (use a cleared cfg2 middle(2) in simp_all)
  have split: "executeCalls ?b0 (failuresBefore @ [(t, succeedingMethod, succeedingArguments)] @ failuresAfter)
                 = executeCalls ?b0 failuresBefore @ ?e # executeCalls ?b2 failuresAfter"
    by (simp add: executeCalls_append Let_def)
  show "\<forall>e \<in> set (executeCalls ?b0
                     (failuresBefore @ [(t, succeedingMethod, succeedingArguments)] @ failuresAfter)).
           invokedOriginal e \<and> \<not> isCircuitCurrentlyOpen (breakerAfter e)"
    unfolding split using first middle(1,2) second by (simp add: ball_Un)
  have final: "breakerAfterCalls ?b0
                 (failuresBefore @ [(t, succeedingMethod, succeedingArguments)] @ failuresAfter) = ?b3"
    by (simp add: breakerAfterCalls_append)
  have "configuration ?b3 = cfg"
    using cfg2 by (simp add: breakerAfterCalls_keeps_configuration)
  moreover have "int (length (failureTimestampsWithinWindow ?b3)) < maximumFailuresAllowed cfg"
    using second cleared a by simp
  ultimately show "\<not> shouldOpenCircuit
            (breakerAfterCalls ?b0
               (failuresBefore @ [(t, succeedingMethod, succeedingArguments)] @ failuresAfter))"
    unfolding final by (simp add: shouldOpenCircuit_def)
qed



theorem C9_success_clears_failure_history_witness:
  "invokedOriginal (executeWithCircuitBreaker exampleBreaker 1000 alwaysSucceeds 7)
   \<and> alwaysSucceeds 7 = Inr ''users''
   \<and> failureTimestampsWithinWindow
        (breakerAfter (executeWithCircuitBreaker exampleBreaker 1000 alwaysSucceeds 7)) = []
   \<and> list_all callFails [(0, alwaysFails, 1), (1000, alwaysFails, 2)]
   \<and> list_all callFails [(3000, alwaysFails, 4), (4000, alwaysFails, 5)]
   \<and> int (length [(0 :: int, alwaysFails, 1 :: nat), (1000, alwaysFails, 2)])
        < maximumFailuresAllowed defaultConfiguration
   \<and> map invokedOriginal
        (executeCalls exampleBreaker
           ([(0, alwaysFails, 1), (1000, alwaysFails, 2)] @ [(2000, alwaysSucceeds, 3)]
            @ [(3000, alwaysFails, 4), (4000, alwaysFails, 5)]))
        = [True, True, True, True, True]
   \<and> \<not> shouldOpenCircuit
        (breakerAfterCalls exampleBreaker
           ([(0, alwaysFails, 1), (1000, alwaysFails, 2)] @ [(2000, alwaysSucceeds, 3)]
            @ [(3000, alwaysFails, 4), (4000, alwaysFails, 5)]))"
proof -
  have hyps: "invokedOriginal (executeWithCircuitBreaker exampleBreaker 1000 alwaysSucceeds 7)"
    "alwaysSucceeds 7 = Inr ''users''" "alwaysSucceeds 3 = Inr ''users''"
    "list_all callFails [(0, alwaysFails, 1), (1000, alwaysFails, 2)]"
    "list_all callFails [(3000, alwaysFails, 4), (4000, alwaysFails, 5)]"
    "int (length [(0 :: int, alwaysFails, 1 :: nat), (1000, alwaysFails, 2)])
        < maximumFailuresAllowed defaultConfiguration"
    "int (length [(3000 :: int, alwaysFails, 4 :: nat), (4000, alwaysFails, 5)])
        < maximumFailuresAllowed defaultConfiguration"
    by code_simp+
  have all_invoked: "map invokedOriginal
        (executeCalls exampleBreaker
           ([(0, alwaysFails, 1), (1000, alwaysFails, 2)] @ [(2000, alwaysSucceeds, 3)]
            @ [(3000, alwaysFails, 4), (4000, alwaysFails, 5)]))
        = [True, True, True, True, True]"
    by code_simp
  have same: "exampleBreaker = newSingleMethodCircuitBreaker ''fetchUsers'' defaultConfiguration
                 (\<lambda>n. Inr ''fallback'')"
    by (simp add: exampleBreaker_def createCircuitBreakerMethod_def)
  note inst = C9_success_clears_failure_history
    [where this = exampleBreaker and now = 1000 and originalMethod = alwaysSucceeds
       and methodArguments = 7 and executionResult = "''users''"
       and failuresBefore = "[(0, alwaysFails, 1), (1000, alwaysFails, 2)]"
       and failuresAfter = "[(3000, alwaysFails, 4), (4000, alwaysFails, 5)]"
       and cfg = defaultConfiguration and succeedingMethod = alwaysSucceeds
       and succeedingArguments = 3 and result = "''users''" and t = 2000
       and name' = "''fetchUsers''" and fallback = "\<lambda>n. Inr ''fallback''", folded same]
  from inst hyps all_invoked show ?thesis
    by blast
qed

lemma open_before_reset_uses_fallback:
  assumes "isCircuitCurrentlyOpen this" and "now < nextAllowedAttemptTime this"
  shows "settled (executeWithCircuitBreaker this now originalMethod methodArguments)
           = fallbackMethodToCall this methodArguments
         \<and> \<not> invokedOriginal (executeWithCircuitBreaker this now originalMethod methodArguments)
         \<and> isCircuitCurrentlyOpen
           (breakerAfter (executeWithCircuitBreaker this now originalMethod methodArguments))
         \<and> nextAllowedAttemptTime
           (breakerAfter (executeWithCircuitBreaker this now originalMethod methodArguments))
            = nextAllowedAttemptTime this"
  using assms by (simp add: breaker_defs Let_def)

text \<open>A failing call on a breaker whose flag is down and whose pruned history is short.\<close>

lemma execute_closed_failure:
  assumes "\<not> isCircuitCurrentlyOpen this"
    and "filter (\<lambda>timestamp. timestamp > now - timeWindowInMilliseconds (configuration this))
           (failureTimestampsWithinWindow this) = kept"
    and "int (length kept) < maximumFailuresAllowed (configuration this)"
    and "originalMethod methodArguments = Inl executionError"
  shows "breakerAfter (executeWithCircuitBreaker this now originalMethod methodArguments)
           = this\<lparr> failureTimestampsWithinWindow := kept @ [now] \<rparr>"
  using assms by (simp add: breaker_defs Let_def split: sum.splits)

text \<open>A call that finds the flag down and the pruned history at the threshold.\<close>

lemma execute_opens:
  assumes "\<not> isCircuitCurrentlyOpen this"
    and "filter (\<lambda>timestamp. timestamp > now - timeWindowInMilliseconds (configuration this))
           (failureTimestampsWithinWindow this) = kept"
    and "int (length kept) \<ge> maximumFailuresAllowed (configuration this)"
    and "resetTimeoutInMilliseconds (configuration this) > 0"
  shows "executeWithCircuitBreaker this now originalMethod methodArguments =
           \<lparr> breakerAfter = this\<lparr> failureTimestampsWithinWindow := kept,
                                 isCircuitCurrentlyOpen := True,
                                 nextAllowedAttemptTime :=
                                   now + resetTimeoutInMilliseconds (configuration this) \<rparr>,
             settled = fallbackMethodToCall this methodArguments,
             invokedOriginal = False \<rparr>"
  using assms by (simp add: breaker_defs Let_def)

text \<open>
  C1 (as amended). With \<open>maximumFailuresAllowed = 3\<close>, \<open>timeWindowInMilliseconds = 10000\<close> and
  \<open>resetTimeoutInMilliseconds = 5000\<close>: after three failing calls within 2 seconds on a new
  breaker the three timestamps are recorded and the open flag is still down. The next call,
  made while the three failures are inside the window (for one at 2.5 s), raises the flag,
  sets \<open>nextAllowedAttemptTime\<close> to its own time plus 5000 and settles to the fallback
  without invoking the original method. Every call made while the flag is up and before
  \<open>nextAllowedAttemptTime\<close> settles to the fallback without invoking the original method and
  leaves the flag and \<open>nextAllowedAttemptTime\<close> as they are.
\<close>

theorem C1_fourth_call_opens_and_uses_fallback:
  assumes "maximumFailuresAllowed cfg = 3"
    and "timeWindowInMilliseconds cfg = 10000"
    and "resetTimeoutInMilliseconds cfg = 5000"
    and "m1 a1 = Inl e1" and "m2 a2 = Inl e2" and "m3 a3 = Inl e3"
    and "t1 \<le> t2" and "t2 \<le> t3" and "t3 \<le> t1 + 2000"
    and "t3 \<le> t4" and "t4 < t1 + 10000"
  shows "failureTimestampsWithinWindow
           (breakerAfterCalls (newSingleMethodCircuitBreaker name' cfg fallback)
              [(t1, m1, a1), (t2, m2, a2), (t3, m3, a3)]) = [t1, t2, t3]
         \<and> \<not> isCircuitCurrentlyOpen
              (breakerAfterCalls (newSingleMethodCircuitBreaker name' cfg fallback)
                 [(t1, m1, a1), (t2, m2, a2), (t3, m3, a3)])
         \<and> settled (executeWithCircuitBreaker
              (breakerAfterCalls (newSingleMethodCircuitBreaker name' cfg fallback)
                 [(t1, m1, a1), (t2, m2, a2), (t3, m3, a3)]) t4 m4 a4) = fallback a4
         \<and> \<not> invokedOriginal (executeWithCircuitBreaker
              (breakerAfterCalls (newSingleMethodCircuitBreaker name' cfg fallback)
                 [(t1, m1, a1), (t2, m2, a2), (t3, m3, a3)]) t4 m4 a4)
         \<and> isCircuitCurrentlyOpen (breakerAfter (executeWithCircuitBreaker
              (breakerAfterCalls (newSingleMethodCircuitBreaker name' cfg fallback)
                 [(t1, m1, a1), (t2, m2, a2), (t3, m3, a3)]) t4 m4 a4))
         \<and> nextAllowedAttemptTime (breakerAfter (executeWithCircuitBreaker
              (breakerAfterCalls (newSingleMethodCircuitBreaker name' cfg fallback)
                 [(t1, m1, a1), (t2, m2, a2), (t3, m3, a3)]) t4 m4 a4)) = t4 + 5000
         \<and> (isCircuitCurrentlyOpen this \<and> now < nextAllowedAttemptTime this \<longrightarrow>
              settled (executeWithCircuitBreaker this now m a) = fallbackMethodToCall this a
              \<and> \<not> invokedOriginal (executeWithCircuitBreaker this now m a)
              \<and> isCircuitCurrentlyOpen (breakerAfter (executeWithCircuitBreaker this now m a))
              \<and> nextAllowedAttemptTime (breakerAfter (executeWithCircuitBreaker this now m a))
                   = nextAllowedAttemptTime this)"
proof -
  let ?b0 = "newSingleMethodCircuitBreaker name' cfg fallback"
  let ?b1 = "?b0\<lparr> failureTimestampsWithinWindow := [t1] \<rparr>"
  let ?b2 = "?b0\<lparr> failureTimestampsWithinWindow := [t1, t2] \<rparr>"
  let ?b3 = "?b0\<lparr> failureTimestampsWithinWindow := [t1, t2, t3] \<rparr>"
  have s1: "breakerAfter (executeWithCircuitBreaker ?b0 t1 m1 a1) = ?b1"
    by (rule execute_closed_failure [where kept = "[]", THEN trans])
       (use assms in \<open>simp_all add: newSingleMethodCircuitBreaker_def\<close>)
  have s2: "breakerAfter (executeWithCircuitBreaker ?b1 t2 m2 a2) = ?b2"
    by (rule execute_closed_failure [where kept = "[t1]", THEN trans])
       (use assms in \<open>simp_all add: newSingleMethodCircuitBreaker_def\<close>)
  have s3: "breakerAfter (executeWithCircuitBreaker ?b2 t3 m3 a3) = ?b3"
    by (rule execute_closed_failure [where kept = "[t1, t2]", THEN trans])
       (use assms in \<open>simp_all add: newSingleMethodCircuitBreaker_def\<close>)
  have b3: "breakerAfterCalls ?b0 [(t1, m1, a1), (t2, m2, a2), (t3, m3, a3)] = ?b3"
    by (simp add: s1 s2 s3)
  have e4: "executeWithCircuitBreaker ?b3 t4 m4 a4 =
              \<lparr> breakerAfter = ?b3\<lparr> failureTimestampsWithinWindow := [t1, t2, t3],
                                    isCircuitCurrentlyOpen := True,
                                    nextAllowedAttemptTime :=
                                      t4 + resetTimeoutInMilliseconds (configuration ?b3) \<rparr>,
                settled = fallbackMethodToCall ?b3 a4, invokedOriginal = False \<rparr>"
    by (rule execute_opens) (use assms in \<open>simp_all add: newSingleMethodCircuitBreaker_def\<close>)
  have later: "isCircuitCurrentlyOpen this \<and> now < nextAllowedAttemptTime this \<longrightarrow>
              settled (executeWithCircuitBreaker this now m a) = fallbackMethodToCall this a
              \<and> \<not> invokedOriginal (executeWithCircuitBreaker this now m a)
              \<and> isCircuitCurrentlyOpen (breakerAfter (executeWithCircuitBreaker this now m a))
              \<and> nextAllowedAttemptTime (breakerAfter (executeWithCircuitBreaker this now m a))
                   = nextAllowedAttemptTime this"
    using open_before_reset_uses_fallback [of this now m a] by simp
  show ?thesis
    unfolding b3 e4 using later assms(3) by (simp add: newSingleMethodCircuitBreaker_def)
qed

theorem C1_fourth_call_opens_and_uses_fallback_witness:
  "maximumFailuresAllowed defaultConfiguration = 3
   \<and> timeWindowInMilliseconds defaultConfiguration = 10000
   \<and> resetTimeoutInMilliseconds defaultConfiguration = 5000
   \<and> alwaysFails 1 = Inl (Error ''ECONNREFUSED'')
   \<and> (0::int) \<le> 1000 \<and> (1000::int) \<le> 2000 \<and> (2000::int) \<le> 0 + 2000
   \<and> (2000::int) \<le> 2500 \<and> (2500::int) < 0 + 10000
   \<and> settled (executeWithCircuitBreaker
        (breakerAfterCalls exampleBreaker
           [(0, alwaysFails, 1), (1000, alwaysFails, 2), (2000, alwaysFails, 3)])
        2500 alwaysSucceeds 4) = Inr ''fallback''
   \<and> \<not> invokedOriginal (executeWithCircuitBreaker
        (breakerAfterCalls exampleBreaker
           [(0, alwaysFails, 1), (1000, alwaysFails, 2), (2000, alwaysFails, 3)])
        2500 alwaysSucceeds 4)
   \<and> nextAllowedAttemptTime (breakerAfter (executeWithCircuitBreaker
        (breakerAfterCalls exampleBreaker
           [(0, alwaysFails, 1), (1000, alwaysFails, 2), (2000, alwaysFails, 3)])
        2500 alwaysSucceeds 4)) = 2500 + 5000
   \<and> isCircuitCurrentlyOpen (breakerAfterCalls exampleBreaker
        [(0, alwaysFails, 1), (1000, alwaysFails, 2), (2000, alwaysFails, 3), (2500, alwaysSucceeds, 4)])
   \<and> (2600::int) < nextAllowedAttemptTime (breakerAfterCalls exampleBreaker
        [(0, alwaysFails, 1), (1000, alwaysFails, 2), (2000, alwaysFails, 3), (2500, alwaysSucceeds, 4)])
   \<and> \<not> invokedOriginal (executeWithCircuitBreaker
        (breakerAfterCalls exampleBreaker
           [(0, alwaysFails, 1), (1000, alwaysFails, 2), (2000, alwaysFails, 3), (2500, alwaysSucceeds, 4)])
        2600 alwaysSucceeds 5)"
proof -
  have hyps: "maximumFailuresAllowed defaultConfiguration = 3"
    "timeWindowInMilliseconds defaultConfiguration = 10000"
    "resetTimeoutInMilliseconds defaultConfiguration = 5000"
    "alwaysFails 1 = Inl (Error ''ECONNREFUSED'')"
    "alwaysFails 2 = Inl (Error ''ECONNREFUSED'')"
    "alwaysFails 3 = Inl (Error ''ECONNREFUSED'')"
    by (simp_all add: defaultConfiguration_def alwaysFails_def)
  have times: "(0::int) \<le> 1000" "(1000::int) \<le> 2000" "(2000::int) \<le> 0 + 2000"
    "(2000::int) \<le> 2500" "(2500::int) < 0 + 10000"
    by simp_all
  have opened: "isCircuitCurrentlyOpen (breakerAfterCalls exampleBreaker
        [(0, alwaysFails, 1), (1000, alwaysFails, 2), (2000, alwaysFails, 3), (2500, alwaysSucceeds, 4)])"
    "(2600::int) < nextAllowedAttemptTime (breakerAfterCalls exampleBreaker
        [(0, alwaysFails, 1), (1000, alwaysFails, 2), (2000, alwaysFails, 3), (2500, alwaysSucceeds, 4)])"
    by code_simp+
  have same: "exampleBreaker = newSingleMethodCircuitBreaker ''fetchUsers'' defaultConfiguration
                 (\<lambda>n. Inr ''fallback'')"
    by (simp add: exampleBreaker_def createCircuitBreakerMethod_def)
  note inst = C1_fourth_call_opens_and_uses_fallback
    [where cfg = defaultConfiguration and ?m1.0 = alwaysFails and ?m2.0 = alwaysFails
       and ?m3.0 = alwaysFails and ?a1.0 = 1 and ?a2.0 = 2 and ?a3.0 = 3
       and ?e1.0 = "Error ''ECONNREFUSED''" and ?e2.0 = "Error ''ECONNREFUSED''"
       and ?e3.0 = "Error ''ECONNREFUSED''"
       and ?t1.0 = 0 and ?t2.0 = 1000 and ?t3.0 = 2000 and ?t4.0 = 2500
       and name' = "''fetchUsers''" and fallback = "\<lambda>n. Inr ''fallback''"
       and ?m4.0 = alwaysSucceeds and ?a4.0 = 4
       and this = "breakerAfterCalls exampleBreaker
          [(0, alwaysFails, 1), (1000, alwaysFails, 2), (2000, alwaysFails, 3), (2500, alwaysSucceeds, 4)]"
       and now = 2600 and m = alwaysSucceeds and a = 5, OF hyps times, folded same]
  from inst hyps times opened show ?thesis
    by blast
qed

text \<open>
  C1 as stated says that the circuit is open after the three failing calls. The flag that
  \<open>getCurrentStatus\<close> reports is down at that point: \<open>shouldOpenCircuit\<close> is evaluated at
  the start of a call, never at the end of a failed one.
\<close>

theorem C1_flag_down_after_three_failures_counterexample:
  "\<not> isCircuitCurrentlyOpen
       (breakerAfterCalls exampleBreaker
          [(0, alwaysFails, 1), (1000, alwaysFails, 2), (2000, alwaysFails, 3)])"
  by code_simp

text \<open>
  What the call after the reset timeout does: the flag is lowered, the original method is
  invoked, \<open>nextAllowedAttemptTime\<close> is not written, and a success empties the history.
  Whatever the outcome, the flag is down after the call.
\<close>

lemma half_open_trial:
  assumes "isCircuitCurrentlyOpen this" and "now \<ge> nextAllowedAttemptTime this"
  shows "invokedOriginal (executeWithCircuitBreaker this now originalMethod methodArguments)
         \<and> \<not> isCircuitCurrentlyOpen
             (breakerAfter (executeWithCircuitBreaker this now originalMethod methodArguments))
         \<and> nextAllowedAttemptTime
             (breakerAfter (executeWithCircuitBreaker this now originalMethod methodArguments))
           = nextAllowedAttemptTime this
         \<and> (originalMethod methodArguments = Inr executionResult \<longrightarrow>
              failureTimestampsWithinWindow
                (breakerAfter (executeWithCircuitBreaker this now originalMethod methodArguments)) = [])"
  using assms by (simp add: breaker_defs Let_def split: sum.splits)

text \<open>
  C2. The claim says that a failed trial call puts the breaker back to open with a new
  \<open>nextAllowedAttemptTime\<close>, as the documentation of the half-open state in
  circuit-breaker.types.ts does ("otherwise, it opens again"). The catch branch only
  records the timestamp. With the default configuration: three failures at 0, 1000 and
  2000 ms; the call at 2500 opens the circuit until 7500; the trial at 13000 fails and
  leaves the flag down, \<open>nextAllowedAttemptTime\<close> at 7500 and a history of one timestamp;
  so the call at 13100 invokes the original method again.
\<close>

theorem C2_failed_trial_does_not_reopen:
  "map invokedOriginal
     (executeCalls exampleBreaker
        [(0, alwaysFails, 1), (1000, alwaysFails, 2), (2000, alwaysFails, 3),
         (2500, alwaysFails, 4), (13000, alwaysFails, 5), (13100, alwaysFails, 6)])
     = [True, True, True, False, True, True]
   \<and> map (\<lambda>e. isCircuitCurrentlyOpen (breakerAfter e))
     (executeCalls exampleBreaker
        [(0, alwaysFails, 1), (1000, alwaysFails, 2), (2000, alwaysFails, 3),
         (2500, alwaysFails, 4), (13000, alwaysFails, 5), (13100, alwaysFails, 6)])
     = [False, False, False, True, False, False]
   \<and> map (\<lambda>e. nextAllowedAttemptTime (breakerAfter e))
     (executeCalls exampleBreaker
        [(0, alwaysFails, 1), (1000, alwaysFails, 2), (2000, alwaysFails, 3),
         (2500, alwaysFails, 4), (13000, alwaysFails, 5), (13100, alwaysFails, 6)])
     = [0, 0, 0, 7500, 7500, 7500]
   \<and> map (\<lambda>e. failureTimestampsWithinWindow (breakerAfter e))
     (executeCalls exampleBreaker
        [(0, alwaysFails, 1), (1000, alwaysFails, 2), (2000, alwaysFails, 3),
         (2500, alwaysFails, 4), (13000, alwaysFails, 5), (13100, alwaysFails, 6)])
     = [[0], [0, 1000], [0, 1000, 2000], [0, 1000, 2000], [13000], [13000, 13100]]"
  by code_simp

section \<open>Service registry: properties\<close>

lemmas registry_defs =
  postRegister_def postHeartbeat_def getServicesByName_def getOrCreateGroup_def groupOf_def
  getClientIP_def truthyString_def truthyNumber_def isServiceAlive_def discoveredCount_def

lemma svcA_id: "createServiceId ''svc-a'' ''10.0.0.1'' 9000 = ''svc-a-10.0.0.1-9000''"
  by (simp add: createServiceId_def numberToString_def)

lemma storeWithSvcA_value:
  "storeWithSvcA = [(''svc-a'', [(''svc-a-10.0.0.1-9000'',
     \<lparr> id' = ''svc-a-10.0.0.1-9000'', name = ''svc-a'', ip = ''10.0.0.1'', port = 9000,
       heartbeatInterval = 30, registeredAt = 0, lastHeartbeat = 0 \<rparr>)])]"
  by (simp add: storeWithSvcA_def registerSvcA_def registry_defs svcA_id Let_def)

text \<open>The liveness test of the source is the predicate of the specification.\<close>

lemma isServiceAlive_iff:
  "isServiceAlive now service \<longleftrightarrow>
     of_int (now - lastHeartbeat service) \<le> (of_int (heartbeatInterval service) * 1000 * (3 / 2) :: rat)"
  by (simp add: isServiceAlive_def Let_def algebra_simps)

lemma isServiceAlive_int:
  "isServiceAlive now service \<longleftrightarrow> now - lastHeartbeat service \<le> heartbeatInterval service * 1500"
proof -
  have "(of_int (heartbeatInterval service) * 1000 * (3 / 2) :: rat)
          = of_int (heartbeatInterval service * 1500)"
    by simp
  then show ?thesis
    unfolding isServiceAlive_iff by (simp only: of_int_le_iff)
qed

text \<open>
  C6. \<open>GET /services/:name\<close> answers with exactly the stored instances of the name, in
  the order of the store, for which \<open>now - lastHeartbeat \<le> heartbeatInterval * 1000 * 1.5\<close>,
  and with the empty list for a name that is not in the store; it has no error response.
\<close>

theorem C6_discover_returns_alive_instances:
  "getServicesByName services' now name' =
     Json (case map_of services' name' of
             None \<Rightarrow> []
           | Some serviceGroup \<Rightarrow>
               filter (\<lambda>service. of_int (now - lastHeartbeat service)
                                   \<le> (of_int (heartbeatInterval service) * 1000 * (3 / 2) :: rat))
                      (map snd serviceGroup))"
  by (simp add: getServicesByName_def groupOf_def Let_def isServiceAlive_iff split: option.splits)

lemma groupOf_update [simp]: "groupOf (AList.update k g al) k = g"
  by (simp add: groupOf_def update_conv')

lemma postRegister_valid:
  assumes "req_name (body req) = Some n" and "n \<noteq> []"
    and "req_port (body req) = Some p" and "p \<noteq> 0"
  shows "postRegister services' now req =
           (AList.update n
              (AList.update (createServiceId n (getClientIP req) p) (registeredInstance req now)
                 (groupOf services' n))
              services',
            Json \<lparr> res_id = createServiceId n (getClientIP req) p,
                   res_heartbeatInterval = heartbeatInterval (registeredInstance req now),
                   res_registeredAt = now \<rparr>)"
  using assms
  by (cases "map_of services' n")
     (simp_all add: postRegister_def registeredInstance_def truthyString_def truthyNumber_def
        getOrCreateGroup_def Let_def groupOf_def update_conv')

lemma postHeartbeat_known:
  assumes "req_name (body req) = Some n" and "n \<noteq> []"
    and "req_port (body req) = Some p" and "p \<noteq> 0"
    and "map_of services' n = Some serviceGroup"
    and "map_of serviceGroup (createServiceId n (getClientIP req) p) = Some service"
  shows "postHeartbeat services' now req =
           (AList.update n
              (AList.update (createServiceId n (getClientIP req) p)
                 (service\<lparr> lastHeartbeat := now \<rparr>) serviceGroup)
              services',
            Json \<lparr> ok = True, res_lastHeartbeat = now,
                   nextHeartbeatIn = heartbeatInterval service \<rparr>)"
  using assms
  by (simp add: postHeartbeat_def truthyString_def truthyNumber_def
        getOrCreateGroup_def Let_def groupOf_def)

lemma update_keys_present:
  "map_of al k = Some v \<Longrightarrow> map fst (AList.update k v' al) = map fst al"
  by (simp add: update_keys map_of_eq_None_iff [symmetric] del: map_of_eq_None_iff)

text \<open>
  C10. A heartbeat for an instance that is in the store answers with the stored interval
  as \<open>nextHeartbeatIn\<close>, whatever interval the request carries, and changes nothing but
  the \<open>lastHeartbeat\<close> of that instance: its other fields, the other instances of the
  group, the other groups and the order of both maps stay as they were.
\<close>

theorem C10_heartbeat_changes_only_lastHeartbeat:
  assumes "req_name (body req) = Some n" and "n \<noteq> []"
    and "req_port (body req) = Some p" and "p \<noteq> 0"
    and "map_of services' n = Some serviceGroup"
    and "map_of serviceGroup (createServiceId n (getClientIP req) p) = Some service"
  shows "snd (postHeartbeat services' now req) =
           Json \<lparr> ok = True, res_lastHeartbeat = now, nextHeartbeatIn = heartbeatInterval service \<rparr>
         \<and> map_of (groupOf (fst (postHeartbeat services' now req)) n)
              (createServiceId n (getClientIP req) p)
            = Some \<lparr> id' = id' service, name = name service, ip = ip service, port = port service,
                     heartbeatInterval = heartbeatInterval service,
                     registeredAt = registeredAt service, lastHeartbeat = now \<rparr>
         \<and> (\<forall>k. k \<noteq> createServiceId n (getClientIP req) p \<longrightarrow>
               map_of (groupOf (fst (postHeartbeat services' now req)) n) k = map_of serviceGroup k)
         \<and> (\<forall>m. m \<noteq> n \<longrightarrow> map_of (fst (postHeartbeat services' now req)) m = map_of services' m)
         \<and> map fst (groupOf (fst (postHeartbeat services' now req)) n) = map fst serviceGroup
         \<and> map fst (fst (postHeartbeat services' now req)) = map fst services'"
  unfolding postHeartbeat_known [OF assms]
  using assms(5,6) by (simp add: update_conv' update_keys_present)


theorem C10_heartbeat_changes_only_lastHeartbeat_witness:
  "req_name (body heartbeatSvcA) = Some ''svc-a'' \<and> ''svc-a'' \<noteq> []
   \<and> req_port (body heartbeatSvcA) = Some 9000 \<and> (9000::int) \<noteq> 0
   \<and> req_heartbeatInterval (body heartbeatSvcA) = Some 5
   \<and> map_of storeWithSvcA ''svc-a'' = Some [(''svc-a-10.0.0.1-9000'',
         \<lparr> id' = ''svc-a-10.0.0.1-9000'', name = ''svc-a'', ip = ''10.0.0.1'', port = 9000,
           heartbeatInterval = 30, registeredAt = 0, lastHeartbeat = 0 \<rparr>)]
   \<and> snd (postHeartbeat storeWithSvcA 4000 heartbeatSvcA) =
         Json \<lparr> ok = True, res_lastHeartbeat = 4000, nextHeartbeatIn = 30 \<rparr>
   \<and> map_of (groupOf (fst (postHeartbeat storeWithSvcA 4000 heartbeatSvcA)) ''svc-a'')
         ''svc-a-10.0.0.1-9000''
       = Some \<lparr> id' = ''svc-a-10.0.0.1-9000'', name = ''svc-a'', ip = ''10.0.0.1'', port = 9000,
                heartbeatInterval = 30, registeredAt = 0, lastHeartbeat = 4000 \<rparr>"
proof -
  let ?service = "\<lparr> id' = ''svc-a-10.0.0.1-9000'', name = ''svc-a'', ip = ''10.0.0.1'', port = 9000,
           heartbeatInterval = 30, registeredAt = 0, lastHeartbeat = 0 \<rparr>"
  have ip: "getClientIP heartbeatSvcA = ''10.0.0.1''"
    by (simp add: getClientIP_def heartbeatSvcA_def truthyString_def)
  have hyps: "req_name (body heartbeatSvcA) = Some ''svc-a''" "''svc-a'' \<noteq> []"
    "req_port (body heartbeatSvcA) = Some 9000" "(9000::int) \<noteq> 0"
    "map_of storeWithSvcA ''svc-a'' = Some [(''svc-a-10.0.0.1-9000'', ?service)]"
    by (simp_all add: heartbeatSvcA_def storeWithSvcA_value)
  have stored: "map_of [(''svc-a-10.0.0.1-9000'', ?service)]
        (createServiceId ''svc-a'' (getClientIP heartbeatSvcA) 9000) = Some ?service"
    by (simp add: ip svcA_id)
  have asked: "req_heartbeatInterval (body heartbeatSvcA) = Some 5"
    by (simp add: heartbeatSvcA_def)
  from C10_heartbeat_changes_only_lastHeartbeat [OF hyps stored, of 4000] hyps asked
  show ?thesis
    by (simp add: ip svcA_id)
qed

lemma filter_update_count:
  "map_of al k = Some old \<Longrightarrow>
     length (filter P (map snd (AList.update k v al))) + (if P old then 1 else 0)
       = length (filter P (map snd al)) + (if P v then 1 else 0)"
  by (induction al) (auto split: if_splits)

lemma single_entry:
  "distinct (map fst al) \<Longrightarrow> map_of al k = Some v \<Longrightarrow>
     length (filter (\<lambda>entry. fst entry = k) al) = 1"
proof (induction al)
  case Nil
  then show ?case by simp
next
  case (Cons entry al)
  show ?case
  proof (cases "fst entry = k")
    case True
    with Cons.prems(1) have "k \<notin> fst ` set al"
      by simp
    then have "filter (\<lambda>entry. fst entry = k) al = []"
      by (force simp: filter_empty_conv image_iff)
    with True show ?thesis by simp
  next
    case False
    with Cons show ?thesis by (cases entry) auto
  qed
qed

lemma list_all_update:
  "list_all P al \<Longrightarrow> P (k, v) \<Longrightarrow> list_all P (AList.update k v al)"
  by (induction al) auto

lemma groupOf_distinct:
  assumes "wellFormedStore services'"
  shows "distinct (map fst (groupOf services' name'))"
proof (cases "map_of services' name'")
  case None
  then show ?thesis by (simp add: groupOf_def)
next
  case (Some serviceGroup)
  then have "(name', serviceGroup) \<in> set services'"
    by (rule map_of_SomeD)
  with assms have "distinct (map fst serviceGroup)"
    by (auto simp: wellFormedStore_def list_all_iff)
  with Some show ?thesis by (simp add: groupOf_def)
qed

lemma wellFormedStore_update:
  assumes "wellFormedStore services'"
  shows "wellFormedStore
           (AList.update name' (AList.update k v (groupOf services' name')) services')"
proof -
  have "distinct (map fst (AList.update k v (groupOf services' name')))"
    using groupOf_distinct [OF assms] by (rule distinct_update)
  then show ?thesis
    using assms by (simp add: wellFormedStore_def distinct_update list_all_update)
qed

lemma discoveredCount_eq:
  "discoveredCount services' now name' =
     length (filter (isServiceAlive now) (map snd (groupOf services' name')))"
  by (simp add: discoveredCount_def getServicesByName_def groupOf_def Let_def split: option.splits)

text \<open>
  C8 (as amended). Two registrations of the same name and port from the same address get
  the same id \<open>name-ip-port\<close>. The second one overwrites the entry of the first in place:
  the keys of the group and of the store, and their order, are the same after it as before
  it, the entry under the id is the newly built instance, and in a store that holds every
  key once the group holds exactly one entry under the id. The number of instances that
  discover returns at a time \<open>now\<close> is the same before and after the second registration
  if and only if the overwritten entry and the new entry agree on the liveness predicate
  at \<open>now\<close>; it is one more after it when the overwritten entry does not pass the
  predicate and the new one does, and one less when the overwritten entry passes it and
  the new one does not.
\<close>

theorem C8_reregistration_overwrites_in_place:
  assumes "req_name (body req1) = Some n" and "n \<noteq> []"
    and "req_port (body req1) = Some p" and "p \<noteq> 0"
    and "req_name (body req2) = Some n" and "req_port (body req2) = Some p"
    and "getClientIP req2 = getClientIP req1"
    and "s1 = fst (postRegister s0 t1 req1)"
    and "s2 = fst (postRegister s1 t2 req2)"
  shows "snd (postRegister s0 t1 req1) =
           Json \<lparr> res_id = createServiceId n (getClientIP req1) p,
                  res_heartbeatInterval = heartbeatInterval (registeredInstance req1 t1),
                  res_registeredAt = t1 \<rparr>
         \<and> snd (postRegister s1 t2 req2) =
           Json \<lparr> res_id = createServiceId n (getClientIP req1) p,
                  res_heartbeatInterval = heartbeatInterval (registeredInstance req2 t2),
                  res_registeredAt = t2 \<rparr>
         \<and> map_of (groupOf s1 n) (createServiceId n (getClientIP req1) p)
             = Some (registeredInstance req1 t1)
         \<and> map_of (groupOf s2 n) (createServiceId n (getClientIP req1) p)
             = Some (registeredInstance req2 t2)
         \<and> map fst (groupOf s2 n) = map fst (groupOf s1 n)
         \<and> map fst s2 = map fst s1
         \<and> (wellFormedStore s0 \<longrightarrow>
              wellFormedStore s2
              \<and> length (filter (\<lambda>entry. fst entry = createServiceId n (getClientIP req1) p)
                          (groupOf s2 n)) = 1)
         \<and> discoveredCount s2 now n + (if isServiceAlive now (registeredInstance req1 t1) then 1 else 0)
             = discoveredCount s1 now n + (if isServiceAlive now (registeredInstance req2 t2) then 1 else 0)
         \<and> (discoveredCount s2 now n = discoveredCount s1 now n
               \<longleftrightarrow> (isServiceAlive now (registeredInstance req1 t1)
                     \<longleftrightarrow> isServiceAlive now (registeredInstance req2 t2)))
         \<and> (\<not> isServiceAlive now (registeredInstance req1 t1)
               \<and> isServiceAlive now (registeredInstance req2 t2) \<longrightarrow>
              discoveredCount s2 now n = discoveredCount s1 now n + 1)
         \<and> (isServiceAlive now (registeredInstance req1 t1)
               \<and> \<not> isServiceAlive now (registeredInstance req2 t2) \<longrightarrow>
              discoveredCount s1 now n = discoveredCount s2 now n + 1)"
proof -
  let ?k = "createServiceId n (getClientIP req1) p"
  let ?i1 = "registeredInstance req1 t1"
  let ?i2 = "registeredInstance req2 t2"
  let ?g1 = "AList.update ?k ?i1 (groupOf s0 n)"
  let ?g2 = "AList.update ?k ?i2 ?g1"
  have r1: "postRegister s0 t1 req1 =
              (AList.update n ?g1 s0,
               Json \<lparr> res_id = ?k, res_heartbeatInterval = heartbeatInterval ?i1,
                      res_registeredAt = t1 \<rparr>)"
    by (rule postRegister_valid) (use assms in simp_all)
  have s1: "s1 = AList.update n ?g1 s0"
    using assms(8) r1 by simp
  have g1: "groupOf s1 n = ?g1"
    by (simp add: s1)
  have r2: "postRegister s1 t2 req2 =
              (AList.update n ?g2 s1,
               Json \<lparr> res_id = ?k, res_heartbeatInterval = heartbeatInterval ?i2,
                      res_registeredAt = t2 \<rparr>)"
    using postRegister_valid [OF assms(5) assms(2) assms(6) assms(4), of s1 t2]
    by (simp add: assms(7) g1)
  have s2: "s2 = AList.update n ?g2 s1"
    using assms(9) r2 by simp
  have g2: "groupOf s2 n = ?g2"
    by (simp add: s2)
  have stored1: "map_of ?g1 ?k = Some ?i1"
    by (simp add: update_conv')
  have stored2: "map_of ?g2 ?k = Some ?i2"
    by (simp add: update_conv')
  have keys: "map fst ?g2 = map fst ?g1"
    using stored1 by (rule update_keys_present)
  have "map_of s1 n = Some ?g1"
    by (simp add: s1 update_conv')
  then have names: "map fst s2 = map fst s1"
    unfolding s2 by (rule update_keys_present)
  have wf: "wellFormedStore s2
            \<and> length (filter (\<lambda>entry. fst entry = ?k) (groupOf s2 n)) = 1"
    if "wellFormedStore s0"
  proof -
    have wf1: "wellFormedStore s1"
      unfolding s1 using that by (rule wellFormedStore_update)
    have wf2: "wellFormedStore s2"
      using wellFormedStore_update [OF wf1, of n ?k ?i2] by (simp add: s2 g1)
    have "distinct (map fst (groupOf s2 n))"
      using wf2 by (rule groupOf_distinct)
    then have "length (filter (\<lambda>entry. fst entry = ?k) (groupOf s2 n)) = 1"
      using stored2 unfolding g2 by (rule single_entry)
    with wf2 show ?thesis by simp
  qed
  have count: "discoveredCount s2 now n + (if isServiceAlive now ?i1 then 1 else 0)
                 = discoveredCount s1 now n + (if isServiceAlive now ?i2 then 1 else 0)"
    unfolding discoveredCount_eq g1 g2 using stored1 by (rule filter_update_count)
  have same: "discoveredCount s2 now n = discoveredCount s1 now n
                \<longleftrightarrow> (isServiceAlive now ?i1 \<longleftrightarrow> isServiceAlive now ?i2)"
    using count by (simp split: if_splits)
  have more: "discoveredCount s2 now n = discoveredCount s1 now n + 1"
    if "\<not> isServiceAlive now ?i1 \<and> isServiceAlive now ?i2"
    using count that by simp
  have less: "discoveredCount s1 now n = discoveredCount s2 now n + 1"
    if "isServiceAlive now ?i1 \<and> \<not> isServiceAlive now ?i2"
    using count that by simp
  have answers: "snd (postRegister s0 t1 req1) =
                   Json \<lparr> res_id = ?k, res_heartbeatInterval = heartbeatInterval ?i1,
                          res_registeredAt = t1 \<rparr>"
    "snd (postRegister s1 t2 req2) =
                   Json \<lparr> res_id = ?k, res_heartbeatInterval = heartbeatInterval ?i2,
                          res_registeredAt = t2 \<rparr>"
    by (simp_all add: r1 r2)
  have entries: "map_of (groupOf s1 n) ?k = Some ?i1" "map_of (groupOf s2 n) ?k = Some ?i2"
    "map fst (groupOf s2 n) = map fst (groupOf s1 n)"
    unfolding g1 g2 using stored1 stored2 keys by blast+
  show ?thesis
    using answers entries names wf count same more less
    by blast
qed

theorem C8_reregistration_overwrites_in_place_witness:
  "req_name (body registerSvcA) = Some ''svc-a'' \<and> ''svc-a'' \<noteq> []
   \<and> req_port (body registerSvcA) = Some 9000 \<and> (9000::int) \<noteq> 0
   \<and> wellFormedStore []
   \<and> isServiceAlive 10000 (registeredInstance registerSvcA 0)
   \<and> isServiceAlive 10000 (registeredInstance registerSvcA 10000)
   \<and> snd (postRegister storeWithSvcA 10000 registerSvcA) =
        Json \<lparr> res_id = ''svc-a-10.0.0.1-9000'', res_heartbeatInterval = 30,
               res_registeredAt = 10000 \<rparr>
   \<and> map fst (groupOf (fst (postRegister storeWithSvcA 10000 registerSvcA)) ''svc-a'')
        = [''svc-a-10.0.0.1-9000'']
   \<and> length (filter (\<lambda>entry. fst entry = ''svc-a-10.0.0.1-9000'')
                (groupOf (fst (postRegister storeWithSvcA 10000 registerSvcA)) ''svc-a'')) = 1
   \<and> discoveredCount (fst (postRegister storeWithSvcA 10000 registerSvcA)) 10000 ''svc-a''
        = discoveredCount storeWithSvcA 10000 ''svc-a''
   \<and> discoveredCount storeWithSvcA 10000 ''svc-a'' = 1
   \<and> \<not> isServiceAlive 50000 (registeredInstance registerSvcA 0)
   \<and> isServiceAlive 50000 (registeredInstance registerSvcA 50000)
   \<and> discoveredCount (fst (postRegister storeWithSvcA 50000 registerSvcA)) 50000 ''svc-a''
        = discoveredCount storeWithSvcA 50000 ''svc-a'' + 1
   \<and> \<not> isServiceAlive 10000 (registeredInstance registerSvcANegative 10000)
   \<and> discoveredCount storeWithSvcA 10000 ''svc-a''
        = discoveredCount (fst (postRegister storeWithSvcA 10000 registerSvcANegative)) 10000
            ''svc-a'' + 1"
proof -
  have ip: "getClientIP registerSvcA = ''10.0.0.1''"
    by (simp add: getClientIP_def registerSvcA_def truthyString_def)
  have ip': "getClientIP registerSvcANegative = getClientIP registerSvcA"
    by (simp add: getClientIP_def registerSvcA_def registerSvcANegative_def truthyString_def)
  have hyps: "req_name (body registerSvcA) = Some ''svc-a''" "''svc-a'' \<noteq> []"
    "req_port (body registerSvcA) = Some 9000" "(9000::int) \<noteq> 0"
    by (simp_all add: registerSvcA_def)
  have hyps': "req_name (body registerSvcANegative) = Some ''svc-a''"
    "req_port (body registerSvcANegative) = Some 9000"
    by (simp_all add: registerSvcANegative_def)
  have wf: "wellFormedStore []"
    by (simp add: wellFormedStore_def)
  have hb: "heartbeatInterval (registeredInstance registerSvcA 10000) = 30"
    by (simp add: registeredInstance_def registerSvcA_def)
  have alive: "isServiceAlive 10000 (registeredInstance registerSvcA 0)"
    "isServiceAlive 10000 (registeredInstance registerSvcA 10000)"
    "\<not> isServiceAlive 50000 (registeredInstance registerSvcA 0)"
    "isServiceAlive 50000 (registeredInstance registerSvcA 50000)"
    "\<not> isServiceAlive 10000 (registeredInstance registerSvcANegative 10000)"
    by (simp_all add: isServiceAlive_int registeredInstance_def registerSvcA_def
          registerSvcANegative_def)
  have keys1: "map fst (groupOf storeWithSvcA ''svc-a'') = [''svc-a-10.0.0.1-9000'']"
    by (simp add: storeWithSvcA_value groupOf_def)
  have count1: "discoveredCount storeWithSvcA 10000 ''svc-a'' = 1"
    by (simp add: storeWithSvcA_value discoveredCount_eq groupOf_def isServiceAlive_int)
  note revived = C8_reregistration_overwrites_in_place
         [OF hyps hyps(1) hyps(3) refl storeWithSvcA_def refl, of 50000 50000]
  from revived alive(3,4)
  have one_more: "discoveredCount (fst (postRegister storeWithSvcA 50000 registerSvcA)) 50000 ''svc-a''
        = discoveredCount storeWithSvcA 50000 ''svc-a'' + 1"
    by blast
  note dropped = C8_reregistration_overwrites_in_place
         [OF hyps hyps' ip' storeWithSvcA_def refl, of 10000 10000]
  from dropped alive(1,5)
  have one_less: "discoveredCount storeWithSvcA 10000 ''svc-a''
        = discoveredCount (fst (postRegister storeWithSvcA 10000 registerSvcANegative)) 10000
            ''svc-a'' + 1"
    by blast
  from C8_reregistration_overwrites_in_place
         [OF hyps hyps(1) hyps(3) refl storeWithSvcA_def refl, of 10000 10000]
       hyps wf alive keys1 count1 one_more one_less
  show ?thesis
    by (simp add: ip svcA_id hb)
qed

text \<open>
  C8 as stated says that the number of instances returned by discover is unchanged by the
  re-registration. An instance registered at time 0 with the default interval of 30 s and
  not heard of since is filtered out at 50000 ms; registering it again at 50000 ms makes
  discover return it.
\<close>

theorem C8_discover_count_changes_counterexample:
  "discoveredCount (fst (postRegister storeWithSvcA 50000 registerSvcA)) 50000 ''svc-a''
     \<noteq> discoveredCount storeWithSvcA 50000 ''svc-a''"
  by (simp add: storeWithSvcA_value registerSvcA_def registry_defs svcA_id Let_def)

section \<open>Discovery client: properties\<close>

lemmas client_defs =
  getServiceUrl_def getServiceUrl_js_def getCachedServices_def isCacheValid_def
  fetchServices_def staleCacheOrThrow_def updateCache_def

lemma mathMin_eq_Min: "mathMin x ys = Min (set (x # ys))"
proof (induction ys arbitrary: x)
  case Nil
  then show ?case by simp
next
  case (Cons y ys)
  have "Min (set (x # y # ys)) = Min (insert (min x y) (set ys))"
    by (cases "set ys = {}") (simp_all add: min.assoc)
  with Cons show ?case by simp
qed

lemma updateCache_entry:
  assumes "services' \<noteq> []"
  shows "updateCache this now1 now2 serviceName services' =
           this\<lparr> serviceCache :=
                   AList.update serviceName
                     \<lparr> services = services', cachedAt = now1,
                       expiresAt = now2 + Min (set (map heartbeatInterval services'))
                                           * cacheMultiplier (options this) * 1000 \<rparr>
                     (serviceCache this) \<rparr>"
proof -
  obtain s ss where "services' = s # ss"
    using assms by (cases services') auto
  then show ?thesis
    by (simp add: updateCache_def Let_def mathMin_eq_Min mult.commute mult.left_commute
          del: set_simps list.set)
qed

text \<open>For a value of \<open>Math.random()\<close>, which lies in \<open>[0, 1)\<close>, the index is in range.\<close>

lemma selectRandomService_in_range:
  assumes "services' \<noteq> []" and "0 \<le> rnd" and "rnd < 1"
  shows "\<exists>service \<in> set services'.
           selectRandomService services' rnd = Inr (formatUrl (ip service) (port service))"
proof -
  let ?n = "length services'"
  let ?i = "\<lfloor>rnd * of_nat ?n\<rfloor>"
  have pos: "0 < ?n" using assms(1) by simp
  have "0 \<le> rnd * of_nat ?n" using assms(2) by simp
  then have lo: "0 \<le> ?i" by simp
  have "rnd * of_nat ?n < of_nat ?n"
    using assms(3) pos by simp
  then have hi: "?i < int ?n"
    by (simp add: floor_less_iff)
  have "nat ?i < ?n"
    using lo hi by linarith
  then have "services' ! nat ?i \<in> set services'" by simp
  moreover have "selectRandomService services' rnd
                   = Inr (formatUrl (ip (services' ! nat ?i)) (port (services' ! nat ?i)))"
    using assms(1) lo hi by (simp add: selectRandomService_def Let_def)
  ultimately show ?thesis by blast
qed


lemma getServiceUrl_fresh:
  assumes "fetchServices fetchReply = Inr freshServices" and "freshServices \<noteq> []"
    and "requestsSent (getServiceUrl this now now1 now2 serviceName fetchReply rnd) \<noteq> []"
  shows "clientAfter (getServiceUrl this now now1 now2 serviceName fetchReply rnd)
           = updateCache this now1 now2 serviceName freshServices"
  using assms by (auto simp: getServiceUrl_def Let_def split: sum.splits if_splits)

lemma exampleClient_value:
  "exampleClient =
     \<lparr> discoveryServerUrl = ''http://localhost:3000'',
       options = \<lparr> defaultHeartbeatInterval = 30, cacheMultiplier = 2, requestTimeout = 5000 \<rparr>,
       currentService = None, heartbeatTimer = None, isRegistered = False, serviceCache = [] \<rparr>"
  by (simp add: exampleClient_def newServiceDiscoveryClient_def defaultOptions_def)

lemma first_resolve:
  "getServiceUrl exampleClient 0 0 0 ''order-service'' (Inr (Some orderInstances)) 0 =
     (exampleClient\<lparr> serviceCache :=
         [(''order-service'', \<lparr> services = orderInstances, cachedAt = 0, expiresAt = 40000 \<rparr>)] \<rparr>,
      Inr ''http://10.0.0.2:5000'',
      [GET ''http://localhost:3000/services/order-service''])"
  by (simp add: exampleClient_value client_defs orderInstances_def selectRandomService_def
        formatUrl_def numberToString_def Let_def)

lemma clientWithCache_value:
  "clientWithCache =
     exampleClient\<lparr> serviceCache :=
       [(''order-service'', \<lparr> services = orderInstances, cachedAt = 0, expiresAt = 40000 \<rparr>)] \<rparr>"
  by (simp add: clientWithCache_def first_resolve)

text \<open>
  The entry that a successful fetch stores: \<open>cachedAt\<close> is the first clock value read by
  \<open>_updateCache\<close>, and the cache duration is added to the second one.
\<close>

lemma cache_entry_after_fetch:
  assumes "fetchServices fetchReply = Inr freshServices" and "freshServices \<noteq> []"
    and "requestsSent (getServiceUrl this now now1 now2 serviceName fetchReply rnd) \<noteq> []"
  shows "map_of (serviceCache
                  (clientAfter (getServiceUrl this now now1 now2 serviceName fetchReply rnd)))
           serviceName
         = Some \<lparr> services = freshServices, cachedAt = now1,
                  expiresAt = now2 + Min (set (map heartbeatInterval freshServices))
                                       * cacheMultiplier (options this) * 1000 \<rparr>"
proof -
  have "clientAfter (getServiceUrl this now now1 now2 serviceName fetchReply rnd)
          = updateCache this now1 now2 serviceName freshServices"
    using assms by (rule getServiceUrl_fresh)
  then show ?thesis
    using assms(2) by (simp add: updateCache_entry update_conv')
qed

text \<open>
  A call made strictly before the \<open>expiresAt\<close> of a non-empty entry settles to the URL of
  one of the cached instances, sends no request and leaves the client as it is.
\<close>

lemma cache_hit_sends_no_request:
  assumes "map_of (serviceCache this) serviceName = Some cacheEntry"
    and "services cacheEntry \<noteq> []" and "now < expiresAt cacheEntry"
    and "0 \<le> rnd" and "rnd < 1"
  shows "\<exists>service \<in> set (services cacheEntry).
           getServiceUrl this now now1 now2 serviceName fetchReply rnd
             = (this, Inr (formatUrl (ip service) (port service)), [])"
proof -
  have run: "getServiceUrl this now now1 now2 serviceName fetchReply rnd
               = (this, selectRandomService (services cacheEntry) rnd, [])"
    using assms(1,2,3)
    by (simp add: getServiceUrl_def getCachedServices_def isCacheValid_def Let_def)
  from selectRandomService_in_range [OF assms(2,4,5)] show ?thesis
    by (simp add: run)
qed

text \<open>
  C7. The claim says that every entry created by a successful fetch has
  \<open>expiresAt = cachedAt + min(heartbeatInterval) * cacheMultiplier * 1000\<close>, as the comment
  on \<open>expiresAt\<close> in client.types.ts does. \<open>_updateCache\<close> fills \<open>cachedAt\<close> with one
  \<open>Date.now()\<close> and adds the duration to another. When the clock moves from 0 to 1 between
  the two reads, the entry for two instances with intervals 30 and 20 and a multiplier of
  2 has \<open>cachedAt = 0\<close> and \<open>expiresAt = 40001\<close>, where the claim gives 40000. The second
  half of the claim holds: at 39999 the call is answered from the cache and sends nothing.
\<close>

theorem C7_expiry_counts_from_second_clock_read:
  "map_of (serviceCache (clientAfter
      (getServiceUrl exampleClient 0 0 1 ''order-service'' (Inr (Some orderInstances)) 0)))
     ''order-service''
     = Some \<lparr> services = orderInstances, cachedAt = 0, expiresAt = 40001 \<rparr>
   \<and> 0 + Min (set (map heartbeatInterval orderInstances))
           * cacheMultiplier (options exampleClient) * 1000 = 40000
   \<and> getServiceUrl clientWithCache 39999 39999 39999 ''order-service'' registryUnreachable (1 / 2)
       = (clientWithCache, Inr ''http://[::1]:5001'', [])"
  by (simp add: clientWithCache_value exampleClient_value client_defs orderInstances_def
        selectRandomService_def formatUrl_def numberToString_def Let_def)

text \<open>
  The TypeScript client falls back to the stale cache: with a non-empty entry for the name, expired or
  not, a failed or empty fetch ends in the URL of a cached instance.
\<close>

lemma getServiceUrl_stale_fallback:
  assumes "map_of (serviceCache this) serviceName = Some cacheEntry"
    and "services cacheEntry \<noteq> []"
    and "fetchServices fetchReply = Inl e \<or> fetchServices fetchReply = Inr []"
    and "0 \<le> rnd" and "rnd < 1"
  shows "\<exists>service \<in> set (services cacheEntry).
           settledTo (getServiceUrl this now now1 now2 serviceName fetchReply rnd)
             = Inr (formatUrl (ip service) (port service))"
proof -
  have "settledTo (getServiceUrl this now now1 now2 serviceName fetchReply rnd)
          = selectRandomService (services cacheEntry) rnd"
    using assms(1,2,3)
    by (auto simp: getServiceUrl_def getCachedServices_def staleCacheOrThrow_def Let_def)
  then show ?thesis
    using selectRandomService_in_range [OF assms(2,4,5)] by simp
qed

text \<open>
  It rejects only with "No instances available for service", and only when the cache has
  no entry for the name and the fetch failed or returned nothing.
\<close>

lemma getServiceUrl_rejects_only_without_cache:
  assumes "settledTo (getServiceUrl this now now1 now2 serviceName fetchReply rnd) = Inl err"
    and "cacheEntriesNonEmpty this" and "0 \<le> rnd" and "rnd < 1"
  shows "err = noInstancesAvailable serviceName
         \<and> map_of (serviceCache this) serviceName = None
         \<and> (fetchServices fetchReply = Inr [] \<or> (\<exists>e. fetchServices fetchReply = Inl e))"
proof (cases "map_of (serviceCache this) serviceName")
  case None
  show ?thesis
  proof (cases "fetchServices fetchReply")
    case (Inl e)
    with None assms(1) show ?thesis
      by (simp add: getServiceUrl_def getCachedServices_def staleCacheOrThrow_def Let_def)
  next
    case (Inr freshServices)
    show ?thesis
    proof (cases "freshServices = []")
      case True
      with None Inr assms(1) show ?thesis
        by (simp add: getServiceUrl_def getCachedServices_def staleCacheOrThrow_def Let_def)
    next
      case False
      from selectRandomService_in_range [OF False assms(3,4)]
      obtain url where "selectRandomService freshServices rnd = Inr url"
        by blast
      with None Inr False assms(1) show ?thesis
        by (simp add: getServiceUrl_def getCachedServices_def Let_def)
    qed
  qed
next
  case (Some cacheEntry)
  then have "(serviceName, cacheEntry) \<in> set (serviceCache this)"
    by (rule map_of_SomeD)
  with assms(2) have nonempty: "services cacheEntry \<noteq> []"
    by (auto simp: cacheEntriesNonEmpty_def list_all_iff)
  from selectRandomService_in_range [OF nonempty assms(3,4)]
  obtain url where cachedUrl: "selectRandomService (services cacheEntry) rnd = Inr url"
    by blast
  have "\<exists>url'. settledTo (getServiceUrl this now now1 now2 serviceName fetchReply rnd) = Inr url'"
  proof (cases "fetchServices fetchReply")
    case (Inl e)
    with Some nonempty cachedUrl show ?thesis
      by (simp add: getServiceUrl_def getCachedServices_def staleCacheOrThrow_def Let_def)
  next
    case (Inr freshServices)
    with Some nonempty cachedUrl show ?thesis
      by (simp add: getServiceUrl_def getCachedServices_def staleCacheOrThrow_def Let_def
            split: sum.splits)
  qed
  with assms(1) show ?thesis by simp
qed

text \<open>
  C4. The claim says that with a non-empty cache entry a failed fetch ends in a URL built
  from the cached instances. The JavaScript client (index.js) calls \<open>_fetchServices\<close>
  outside any \<open>try\<close>: after it has cached two instances of \<open>order-service\<close> at time 0, a
  call at 70000 ms, when the entry has expired and the registry is unreachable, rejects
  with the error of the fetch. The TypeScript client, in the same state and at the same
  input, settles to the URL of a cached instance.
\<close>

theorem C4_js_client_rejects_despite_stale_cache:
  "clientAfter (getServiceUrl_js exampleClient 0 0 0 ''order-service'' (Inr (Some orderInstances)) 0)
     = clientWithCache
   \<and> map_of (serviceCache clientWithCache) ''order-service''
       = Some \<lparr> services = orderInstances, cachedAt = 0, expiresAt = 40000 \<rparr>
   \<and> getServiceUrl_js clientWithCache 70000 70000 70000 ''order-service'' registryUnreachable 0
       = (clientWithCache, Inl (Error ''connect ECONNREFUSED 127.0.0.1:3000''),
          [GET ''http://localhost:3000/services/order-service''])
   \<and> getServiceUrl clientWithCache 70000 70000 70000 ''order-service'' registryUnreachable 0
       = (clientWithCache, Inr ''http://10.0.0.2:5000'',
          [GET ''http://localhost:3000/services/order-service''])"
  by (simp add: clientWithCache_value exampleClient_value client_defs orderInstances_def
        registryUnreachable_def selectRandomService_def formatUrl_def numberToString_def Let_def)

text \<open>
  The TypeScript client uses the confirmed interval: after a successful registration the timer has
  the confirmed interval, one heartbeat has been sent at once, and that heartbeat and
  every one the timer sends carry the confirmed interval.
\<close>

lemma register_uses_confirmed_interval:
  "register this serviceName servicePort (Inr response) =
     (this\<lparr> currentService :=
              Some \<lparr> cs_name = serviceName, cs_port = servicePort,
                     cs_heartbeatInterval = res_heartbeatInterval response,
                     cs_id = res_id response \<rparr>,
            isRegistered := True,
            heartbeatTimer :=
              Some \<lparr> timer_interval = res_heartbeatInterval response * 1000,
                     timer_active = True \<rparr> \<rparr>,
      Inr response,
      [POST (discoveryServerUrl this @ ''/register'')
         \<lparr> payload_name = serviceName, payload_port = servicePort,
           payload_heartbeatInterval = defaultHeartbeatInterval (options this) \<rparr>,
       POST (discoveryServerUrl this @ ''/heartbeat'')
         \<lparr> payload_name = serviceName, payload_port = servicePort,
           payload_heartbeatInterval = res_heartbeatInterval response \<rparr>])"
  by (cases "heartbeatTimer this")
     (simp_all add: register_def registerWith_def startHeartbeat_def startHeartbeatWith_def
        clearOldTimer_def sendHeartbeat_def Let_def)

lemma timer_sends_confirmed_interval:
  "timerFires (clientAfter (register this serviceName servicePort (Inr response))) =
     [POST (discoveryServerUrl this @ ''/heartbeat'')
        \<lparr> payload_name = serviceName, payload_port = servicePort,
          payload_heartbeatInterval = res_heartbeatInterval response \<rparr>]"
  by (simp add: register_uses_confirmed_interval timerFires_def sendHeartbeat_def)

lemma getServiceUrl_keeps_registration:
  "currentService (clientAfter (getServiceUrl this now now1 now2 serviceName fetchReply rnd)) = currentService this
   \<and> heartbeatTimer (clientAfter (getServiceUrl this now now1 now2 serviceName fetchReply rnd)) = heartbeatTimer this
   \<and> discoveryServerUrl (clientAfter (getServiceUrl this now now1 now2 serviceName fetchReply rnd))
       = discoveryServerUrl this"
  by (simp add: client_defs Let_def split: sum.splits option.splits list.splits)

text \<open>
  C5. The claim says that every heartbeat after a successful registration carries the
  interval that the registry confirmed. The JavaScript client (index.js) builds the
  heartbeat payload from \<open>options.defaultHeartbeatInterval\<close>: when it asked for 30 s and the
  registry confirmed 10 s, its timer has a period of 10000 ms, but the heartbeat sent at
  once and every heartbeat of the timer carry 30. The TypeScript client sends 10.
\<close>

theorem C5_js_heartbeat_carries_requested_interval:
  "requestsSent (register_js exampleClient ''user-service'' 4000 confirmsTenSeconds) =
     [POST ''http://localhost:3000/register''
        \<lparr> payload_name = ''user-service'', payload_port = 4000, payload_heartbeatInterval = 30 \<rparr>,
      POST ''http://localhost:3000/heartbeat''
        \<lparr> payload_name = ''user-service'', payload_port = 4000, payload_heartbeatInterval = 30 \<rparr>]
   \<and> heartbeatTimer (clientAfter (register_js exampleClient ''user-service'' 4000 confirmsTenSeconds))
       = Some \<lparr> timer_interval = 10000, timer_active = True \<rparr>
   \<and> timerFires_js (clientAfter (register_js exampleClient ''user-service'' 4000 confirmsTenSeconds)) =
     [POST ''http://localhost:3000/heartbeat''
        \<lparr> payload_name = ''user-service'', payload_port = 4000, payload_heartbeatInterval = 30 \<rparr>]
   \<and> requestsSent (register exampleClient ''user-service'' 4000 confirmsTenSeconds) =
     [POST ''http://localhost:3000/register''
        \<lparr> payload_name = ''user-service'', payload_port = 4000, payload_heartbeatInterval = 30 \<rparr>,
      POST ''http://localhost:3000/heartbeat''
        \<lparr> payload_name = ''user-service'', payload_port = 4000, payload_heartbeatInterval = 10 \<rparr>]"
  by (simp add: exampleClient_value confirmsTenSeconds_def register_js_def register_def
        registerWith_def startHeartbeat_js_def startHeartbeat_def startHeartbeatWith_def
        clearOldTimer_def sendHeartbeat_js_def sendHeartbeat_def timerFires_js_def Let_def)

end
